theory Spec2Isabelle
  imports Main
begin

section \<open>JavaScript strings and exceptions\<close>

text \<open>
  Strings are lists of 8-bit code units (\<^typ>\<open>string\<close>). \<open>String.prototype.trim\<close> removes
  the white space and line terminator code units from both ends; among 8-bit code units
  these are U+0009 to U+000D, U+0020 and U+00A0. The case mappings are given on the
  ASCII letters and leave every other code unit as it is: the source only compares their
  results with ASCII literals, and no 8-bit non-ASCII code unit is mapped to an ASCII
  letter by JavaScript, apart from U+00DF whose upper case \<open>SS\<close> occurs in none of the
  literals compared with.
\<close>

definition is_ws :: "char \<Rightarrow> bool" where
  "is_ws c = (c \<in> set [CHR 0x09, CHR 0x0A, CHR 0x0B, CHR 0x0C, CHR 0x0D, CHR '' '', CHR 0xA0])"

definition trim :: "string \<Rightarrow> string" where
  "trim s = rev (dropWhile is_ws (rev (dropWhile is_ws s)))"

definition lower_char :: "char \<Rightarrow> char" where
  "lower_char c =
     (case map_of (zip ''ABCDEFGHIJKLMNOPQRSTUVWXYZ'' ''abcdefghijklmnopqrstuvwxyz'') c of
        Some d \<Rightarrow> d | None \<Rightarrow> c)"

definition upper_char :: "char \<Rightarrow> char" where
  "upper_char c =
     (case map_of (zip ''abcdefghijklmnopqrstuvwxyz'' ''ABCDEFGHIJKLMNOPQRSTUVWXYZ'') c of
        Some d \<Rightarrow> d | None \<Rightarrow> c)"

definition toLowerCase :: "string \<Rightarrow> string" where
  "toLowerCase s = map lower_char s"

definition toUpperCase :: "string \<Rightarrow> string" where
  "toUpperCase s = map upper_char s"

definition startsWith :: "string \<Rightarrow> string \<Rightarrow> bool" where
  "startsWith s p = (take (length p) s = p)"

definition endsWith :: "string \<Rightarrow> string \<Rightarrow> bool" where
  "endsWith s p = (length p \<le> length s \<and> drop (length s - length p) s = p)"

text \<open>\<open>s.includes(sub)\<close>: \<open>sub\<close> occurs in \<open>s\<close> as a contiguous run.\<close>

fun str_includes :: "string \<Rightarrow> string \<Rightarrow> bool" where
  "str_includes [] sub = (sub = [])"
| "str_includes (c # cs) sub = (startsWith (c # cs) sub \<or> str_includes cs sub)"

text \<open>\<open>s.split(',')\<close>: the pieces between the commas; the empty string gives one empty piece.\<close>

fun split_comma :: "string \<Rightarrow> string list" where
  "split_comma [] = [[]]"
| "split_comma (c # cs) =
     (if c = CHR '','' then [] # split_comma cs
      else (case split_comma cs of [] \<Rightarrow> [[c]] | w # ws \<Rightarrow> (c # w) # ws))"

text \<open>
  A thrown value is an \<open>Error\<close> object: its \<open>name\<close> (\<open>Error\<close>, \<open>TypeError\<close>, ...), its
  optional \<open>code\<close> (set by the file system calls of Node) and its \<open>message\<close>. A
  computation that may throw returns \<open>js_error + 'a\<close>, with \<open>Inl\<close> for the exception.
\<close>

datatype js_error = JsError (err_name: string) (err_code: "string option") (err_message: string)

section \<open>web-config: the configuration and its validation\<close>

record SiteInfo =
  site_name :: string
  site_description :: string
  site_url :: string
  site_favicon :: "string option"

record Features =
  search :: bool
  graphView :: bool
  navigation :: bool
  themeToggle :: bool
  backlinks :: bool
  tags :: bool
  outline :: bool
  sidebar :: bool

record MetaTag =
  tag_name :: string
  tag_content :: string
  tag_property :: "string option"

record Seo =
  googleAnalyticsId :: "string option"
  customMetaTags :: "MetaTag list option"
  generateSitemap :: bool
  generateRobotsTxt :: bool

record Advanced =
  customCSS :: "string option"
  excludePatterns :: "string list"
  imageOptimization :: bool
  generateResponsiveImages :: bool
  slugifyPaths :: bool
  offlineResources :: bool

record WebConfig =
  version :: string
  site :: SiteInfo
  features :: Features
  seo :: Seo
  advanced :: Advanced

definition DEFAULT_WEB_CONFIG :: WebConfig where
  "DEFAULT_WEB_CONFIG =
     \<lparr> version = ''1.0.0'',
       site = \<lparr> site_name = ''My Digital Garden'',
                site_description = ''A collection of interconnected notes and ideas'',
                site_url = ''https://example.com'',
                site_favicon = None \<rparr>,
       features = \<lparr> search = True, graphView = True, navigation = True, themeToggle = True,
                    backlinks = True, tags = True, outline = True, sidebar = True \<rparr>,
       seo = \<lparr> googleAnalyticsId = None, customMetaTags = Some [],
               generateSitemap = True, generateRobotsTxt = True \<rparr>,
       advanced = \<lparr> customCSS = None,
                    excludePatterns = [''Private/**'', ''Drafts/**'', ''.obsidian/**''],
                    imageOptimization = True, generateResponsiveImages = True,
                    slugifyPaths = True, offlineResources = False \<rparr> \<rparr>"

text \<open>
  The analytics id pattern \<^verbatim>\<open>/^(G-[A-Z0-9]+|UA-\d+-\d+|GT-[A-Z0-9]+)$/\<close>. In the second
  alternative the first \<^verbatim>\<open>\d+\<close> has to take the whole run of digits, since the next
  character must be the hyphen.
\<close>

definition is_digit :: "char \<Rightarrow> bool" where
  "is_digit c = (c \<in> set ''0123456789'')"

definition is_upper_or_digit :: "char \<Rightarrow> bool" where
  "is_upper_or_digit c = (c \<in> set ''ABCDEFGHIJKLMNOPQRSTUVWXYZ0123456789'')"

definition matchesAnalyticsId :: "string \<Rightarrow> bool" where
  "matchesAnalyticsId s =
     ((startsWith s ''G-'' \<and> drop 2 s \<noteq> [] \<and> list_all is_upper_or_digit (drop 2 s))
      \<or> (startsWith s ''UA-'' \<and> takeWhile is_digit (drop 3 s) \<noteq> [] \<and>
          (case dropWhile is_digit (drop 3 s) of
             [] \<Rightarrow> False
           | c # t \<Rightarrow> c = CHR ''-'' \<and> t \<noteq> [] \<and> list_all is_digit t))
      \<or> (startsWith s ''GT-'' \<and> drop 3 s \<noteq> [] \<and> list_all is_upper_or_digit (drop 3 s)))"

text \<open>
  \<open>validateWebConfig\<close>. The constructor \<open>new URL(s)\<close> is the platform's URL parser; the
  model takes it as the parameter \<open>newURL\<close>, which returns the parsed value or throws.
  The \<open>try\<close>/\<open>catch\<close> around it is the case distinction on its result.
\<close>

definition validateWebConfig :: "(string \<Rightarrow> js_error + 'u) \<Rightarrow> WebConfig \<Rightarrow> js_error + string list" where
  "validateWebConfig newURL config =
     Inr (
       (if site_name (site config) = [] \<or> trim (site_name (site config)) = []
        then [''Site name is required''] else [])
       @ (if site_description (site config) = [] \<or> trim (site_description (site config)) = []
          then [''Site description is required''] else [])
       @ (if site_url (site config) = [] \<or> trim (site_url (site config)) = []
          then [''Site URL is required'']
          else (case newURL (site_url (site config)) of
                  Inr _ \<Rightarrow> []
                | Inl _ \<Rightarrow> [''Site URL must be a valid URL (e.g., https://example.com)'']))
       @ (case googleAnalyticsId (seo config) of
            None \<Rightarrow> []
          | Some g \<Rightarrow>
              if g \<noteq> [] \<and> \<not> matchesAnalyticsId g
              then [''Google Analytics ID must be in format G-XXXXXXXXXX, UA-XXXXXXXX-X, or GT-XXXXXXXXXX'']
              else []))"

section \<open>docker-config-loader: configuration from environment variables\<close>

text \<open>
  \<open>process.env\<close> is a map from variable names to values. The test \<open>if (process.env.X)\<close>
  holds when the variable is set to a non-empty string.
\<close>

type_synonym env = "string \<Rightarrow> string option"

definition truthy :: "string option \<Rightarrow> bool" where
  "truthy v = (case v of None \<Rightarrow> False | Some s \<Rightarrow> s \<noteq> [])"

text \<open>
  \<open>parseBooleanEnv\<close> returns the parsed value together with the lines it writes with
  \<open>console.warn\<close>.
\<close>

definition invalid_boolean_warning :: "string \<Rightarrow> string \<Rightarrow> bool \<Rightarrow> string" where
  "invalid_boolean_warning envVar value defaultValue =
     ''Invalid boolean value for '' @ envVar @ '': '' @ [CHR 0x22] @ value @ [CHR 0x22]
     @ ''. Using default: '' @ (if defaultValue then ''true'' else ''false'')"

definition parseBooleanEnv :: "env \<Rightarrow> string \<Rightarrow> bool \<Rightarrow> bool \<times> string list" where
  "parseBooleanEnv e envVar defaultValue =
     (case e envVar of
        None \<Rightarrow> (defaultValue, [])
      | Some value \<Rightarrow>
          (let lowerValue = trim (toLowerCase value) in
           if lowerValue = ''true'' \<or> lowerValue = ''1'' \<or> lowerValue = ''yes'' then (True, [])
           else if lowerValue = ''false'' \<or> lowerValue = ''0'' \<or> lowerValue = ''no'' then (False, [])
           else (defaultValue, [invalid_boolean_warning envVar value defaultValue])))"

text \<open>
  \<open>loadFromEnvironment\<close> builds the configuration statement by statement. The state of
  the construction is the configuration so far and the lines warned on the console.
  \<open>JSON.parse(JSON.stringify(DEFAULT_WEB_CONFIG))\<close> is a copy of the defaults (values are
  immutable here, and the fields that are \<open>undefined\<close> are absent in both). The JSON
  parser applied to \<open>OBSIDIAN_CUSTOM_META_TAGS\<close> is the parameter \<open>parseJSON\<close>: it throws,
  or returns the array parsed (\<open>Some\<close>) or a value that is not an array (\<open>None\<close>).
\<close>

type_synonym loader_state = "WebConfig \<times> string list"

definition set_string :: "env \<Rightarrow> string \<Rightarrow> (string \<Rightarrow> WebConfig \<Rightarrow> WebConfig) \<Rightarrow> loader_state \<Rightarrow> loader_state" where
  "set_string e envVar put st =
     (if truthy (e envVar) then (put (the (e envVar)) (fst st), snd st) else st)"

definition set_boolean :: "env \<Rightarrow> string \<Rightarrow> (WebConfig \<Rightarrow> bool) \<Rightarrow> (bool \<Rightarrow> WebConfig \<Rightarrow> WebConfig) \<Rightarrow> loader_state \<Rightarrow> loader_state" where
  "set_boolean e envVar get put st =
     (put (fst (parseBooleanEnv e envVar (get (fst st)))) (fst st),
      snd st @ snd (parseBooleanEnv e envVar (get (fst st))))"

definition set_meta_tags :: "(string \<Rightarrow> js_error + MetaTag list option) \<Rightarrow> env \<Rightarrow> loader_state \<Rightarrow> loader_state" where
  "set_meta_tags parseJSON e st =
     (if truthy (e ''OBSIDIAN_CUSTOM_META_TAGS'') then
        (case parseJSON (the (e ''OBSIDIAN_CUSTOM_META_TAGS'')) of
           Inr (Some metaTags) \<Rightarrow> ((fst st)\<lparr>seo := (seo (fst st))\<lparr>customMetaTags := Some metaTags\<rparr>\<rparr>, snd st)
         | Inr None \<Rightarrow> st
         | Inl _ \<Rightarrow> (fst st, snd st @ [''Invalid OBSIDIAN_CUSTOM_META_TAGS JSON format, using defaults'']))
      else st)"

definition set_exclude_patterns :: "env \<Rightarrow> loader_state \<Rightarrow> loader_state" where
  "set_exclude_patterns e st =
     (if truthy (e ''OBSIDIAN_EXCLUDE_PATTERNS'') then
        ((fst st)\<lparr>advanced := (advanced (fst st))
           \<lparr>excludePatterns :=
              filter (\<lambda>pattern. length pattern > 0)
                (map trim (split_comma (the (e ''OBSIDIAN_EXCLUDE_PATTERNS''))))\<rparr>\<rparr>, snd st)
      else st)"

definition loadFromEnvironment :: "(string \<Rightarrow> js_error + MetaTag list option) \<Rightarrow> env \<Rightarrow> loader_state" where
  "loadFromEnvironment parseJSON e =
     (let st = (DEFAULT_WEB_CONFIG, []);
          st = set_string e ''OBSIDIAN_SITE_NAME'' (\<lambda>v c. c\<lparr>site := (site c)\<lparr>site_name := v\<rparr>\<rparr>) st;
          st = set_string e ''OBSIDIAN_SITE_DESCRIPTION'' (\<lambda>v c. c\<lparr>site := (site c)\<lparr>site_description := v\<rparr>\<rparr>) st;
          st = set_string e ''OBSIDIAN_SITE_URL'' (\<lambda>v c. c\<lparr>site := (site c)\<lparr>site_url := v\<rparr>\<rparr>) st;
          st = set_string e ''OBSIDIAN_SITE_FAVICON'' (\<lambda>v c. c\<lparr>site := (site c)\<lparr>site_favicon := Some v\<rparr>\<rparr>) st;
          st = set_boolean e ''OBSIDIAN_FEATURE_SEARCH'' (\<lambda>c. search (features c))
                 (\<lambda>b c. c\<lparr>features := (features c)\<lparr>search := b\<rparr>\<rparr>) st;
          st = set_boolean e ''OBSIDIAN_FEATURE_GRAPH_VIEW'' (\<lambda>c. graphView (features c))
                 (\<lambda>b c. c\<lparr>features := (features c)\<lparr>graphView := b\<rparr>\<rparr>) st;
          st = set_boolean e ''OBSIDIAN_FEATURE_NAVIGATION'' (\<lambda>c. navigation (features c))
                 (\<lambda>b c. c\<lparr>features := (features c)\<lparr>navigation := b\<rparr>\<rparr>) st;
          st = set_boolean e ''OBSIDIAN_FEATURE_THEME_TOGGLE'' (\<lambda>c. themeToggle (features c))
                 (\<lambda>b c. c\<lparr>features := (features c)\<lparr>themeToggle := b\<rparr>\<rparr>) st;
          st = set_boolean e ''OBSIDIAN_FEATURE_BACKLINKS'' (\<lambda>c. backlinks (features c))
                 (\<lambda>b c. c\<lparr>features := (features c)\<lparr>backlinks := b\<rparr>\<rparr>) st;
          st = set_boolean e ''OBSIDIAN_FEATURE_TAGS'' (\<lambda>c. tags (features c))
                 (\<lambda>b c. c\<lparr>features := (features c)\<lparr>tags := b\<rparr>\<rparr>) st;
          st = set_boolean e ''OBSIDIAN_FEATURE_OUTLINE'' (\<lambda>c. outline (features c))
                 (\<lambda>b c. c\<lparr>features := (features c)\<lparr>outline := b\<rparr>\<rparr>) st;
          st = set_boolean e ''OBSIDIAN_FEATURE_SIDEBAR'' (\<lambda>c. sidebar (features c))
                 (\<lambda>b c. c\<lparr>features := (features c)\<lparr>sidebar := b\<rparr>\<rparr>) st;
          st = set_string e ''OBSIDIAN_GOOGLE_ANALYTICS_ID'' (\<lambda>v c. c\<lparr>seo := (seo c)\<lparr>googleAnalyticsId := Some v\<rparr>\<rparr>) st;
          st = set_boolean e ''OBSIDIAN_GENERATE_SITEMAP'' (\<lambda>c. generateSitemap (seo c))
                 (\<lambda>b c. c\<lparr>seo := (seo c)\<lparr>generateSitemap := b\<rparr>\<rparr>) st;
          st = set_boolean e ''OBSIDIAN_GENERATE_ROBOTS_TXT'' (\<lambda>c. generateRobotsTxt (seo c))
                 (\<lambda>b c. c\<lparr>seo := (seo c)\<lparr>generateRobotsTxt := b\<rparr>\<rparr>) st;
          st = set_meta_tags parseJSON e st;
          st = set_string e ''OBSIDIAN_CUSTOM_CSS'' (\<lambda>v c. c\<lparr>advanced := (advanced c)\<lparr>customCSS := Some v\<rparr>\<rparr>) st;
          st = set_exclude_patterns e st;
          st = set_boolean e ''OBSIDIAN_IMAGE_OPTIMIZATION'' (\<lambda>c. imageOptimization (advanced c))
                 (\<lambda>b c. c\<lparr>advanced := (advanced c)\<lparr>imageOptimization := b\<rparr>\<rparr>) st;
          st = set_boolean e ''OBSIDIAN_RESPONSIVE_IMAGES'' (\<lambda>c. generateResponsiveImages (advanced c))
                 (\<lambda>b c. c\<lparr>advanced := (advanced c)\<lparr>generateResponsiveImages := b\<rparr>\<rparr>) st;
          st = set_boolean e ''OBSIDIAN_SLUGIFY_PATHS'' (\<lambda>c. slugifyPaths (advanced c))
                 (\<lambda>b c. c\<lparr>advanced := (advanced c)\<lparr>slugifyPaths := b\<rparr>\<rparr>) st;
          st = set_boolean e ''OBSIDIAN_OFFLINE_RESOURCES'' (\<lambda>c. offlineResources (advanced c))
                 (\<lambda>b c. c\<lparr>advanced := (advanced c)\<lparr>offlineResources := b\<rparr>\<rparr>) st
      in st)"

definition validateEnvironmentConfig :: "(string \<Rightarrow> js_error + 'u) \<Rightarrow> WebConfig \<Rightarrow> js_error + string list" where
  "validateEnvironmentConfig newURL config = validateWebConfig newURL config"

text \<open>
  The boolean variables the loader recognises, each with the field it sets, and the
  console line written for the meta tags variable.
\<close>

definition boolean_variables :: "(string \<times> (WebConfig \<Rightarrow> bool)) list" where
  "boolean_variables =
     [(''OBSIDIAN_FEATURE_SEARCH'', \<lambda>c. search (features c)),
      (''OBSIDIAN_FEATURE_GRAPH_VIEW'', \<lambda>c. graphView (features c)),
      (''OBSIDIAN_FEATURE_NAVIGATION'', \<lambda>c. navigation (features c)),
      (''OBSIDIAN_FEATURE_THEME_TOGGLE'', \<lambda>c. themeToggle (features c)),
      (''OBSIDIAN_FEATURE_BACKLINKS'', \<lambda>c. backlinks (features c)),
      (''OBSIDIAN_FEATURE_TAGS'', \<lambda>c. tags (features c)),
      (''OBSIDIAN_FEATURE_OUTLINE'', \<lambda>c. outline (features c)),
      (''OBSIDIAN_FEATURE_SIDEBAR'', \<lambda>c. sidebar (features c)),
      (''OBSIDIAN_GENERATE_SITEMAP'', \<lambda>c. generateSitemap (seo c)),
      (''OBSIDIAN_GENERATE_ROBOTS_TXT'', \<lambda>c. generateRobotsTxt (seo c)),
      (''OBSIDIAN_IMAGE_OPTIMIZATION'', \<lambda>c. imageOptimization (advanced c)),
      (''OBSIDIAN_RESPONSIVE_IMAGES'', \<lambda>c. generateResponsiveImages (advanced c)),
      (''OBSIDIAN_SLUGIFY_PATHS'', \<lambda>c. slugifyPaths (advanced c)),
      (''OBSIDIAN_OFFLINE_RESOURCES'', \<lambda>c. offlineResources (advanced c))]"

definition meta_tags_warning :: "(string \<Rightarrow> js_error + MetaTag list option) \<Rightarrow> env \<Rightarrow> string list" where
  "meta_tags_warning parseJSON e = snd (set_meta_tags parseJSON e (DEFAULT_WEB_CONFIG, []))"

section \<open>vault-validator: validation of a vault directory\<close>

text \<open>
  The file system below the vault path is a tree. \<open>Missing\<close> stands for a path at which
  \<open>existsSync\<close> is false and \<open>statSync\<close> throws: nothing is there, or a dangling link that
  \<open>readdirSync\<close> of the parent still lists. A file has its size in bytes and, when
  \<open>readFileSync\<close> followed by \<open>JSON.parse\<close> throws on it, the message of that exception.
  A directory lists its entries in the order \<open>readdirSync\<close> returns them. Every function
  of the source that takes a path takes here the node at that path; \<open>child\<close> is the node at
  \<open>join(dir, name)\<close>. Paths reported in the result are the names below the vault path.
  Byte counts and file counts are natural numbers.
\<close>

datatype node =
    Missing
  | File (file_size: nat) (read_error: "string option")
  | Dir "(string \<times> node) list"

type_synonym vpath = "string list"

definition child :: "node \<Rightarrow> string \<Rightarrow> node" where
  "child dir name =
     (case dir of
        Dir items \<Rightarrow> (case map_of items name of Some n \<Rightarrow> n | None \<Rightarrow> Missing)
      | _ \<Rightarrow> Missing)"

definition existsSync :: "node \<Rightarrow> bool" where
  "existsSync n = (n \<noteq> Missing)"

fun isDirectory :: "node \<Rightarrow> bool" where
  "isDirectory (Dir _) = True"
| "isDirectory _ = False"

fun isFile :: "node \<Rightarrow> bool" where
  "isFile (File _ _) = True"
| "isFile _ = False"

text \<open>
  The message and suggestion texts of the entries are display strings put together
  from numbers and paths; the model keeps the code, the path and the severity of an
  entry. A line of \<open>suggestions\<close> names a large file: its path and size are kept.
\<close>

datatype severity = SeverityError | SeverityWarning

record ValidationError =
  e_code :: string
  e_path :: "vpath option"
  e_severity :: severity

record ValidationWarning =
  w_code :: string
  w_path :: "vpath option"

record report =
  errors :: "ValidationError list"
  warnings :: "ValidationWarning list"
  suggestions :: "(vpath \<times> nat) list"

record ValidationResult = report +
  isValid :: bool

definition push_error :: "string \<Rightarrow> vpath option \<Rightarrow> severity \<Rightarrow> report \<Rightarrow> report" where
  "push_error c p sev r = r\<lparr>errors := errors r @ [\<lparr> e_code = c, e_path = p, e_severity = sev \<rparr>]\<rparr>"

definition push_warning :: "string \<Rightarrow> vpath option \<Rightarrow> report \<Rightarrow> report" where
  "push_warning c p r = r\<lparr>warnings := warnings r @ [\<lparr> w_code = c, w_path = p \<rparr>]\<rparr>"

text \<open>
  The recursive walks. A \<open>statSync\<close> that throws inside the loop leaves the loop through
  the \<open>catch\<close>, and the function returns what it has counted so far.
\<close>

fun countFilesWithExtension :: "string \<Rightarrow> node \<Rightarrow> nat"
  and count_items :: "string \<Rightarrow> (string \<times> node) list \<Rightarrow> nat" where
  "countFilesWithExtension ext (Dir items) = count_items ext items"
| "countFilesWithExtension ext Missing = 0"
| "countFilesWithExtension ext (File sz re) = 0"
| "count_items ext [] = 0"
| "count_items ext ((item, Missing) # rest) = 0"
| "count_items ext ((item, Dir sub) # rest) =
     (if \<not> startsWith item ''.'' then countFilesWithExtension ext (Dir sub) else 0)
     + count_items ext rest"
| "count_items ext ((item, File sz re) # rest) =
     (if endsWith item ext then 1 else 0) + count_items ext rest"

definition hasFilesWithExtension :: "string \<Rightarrow> node \<Rightarrow> bool" where
  "hasFilesWithExtension ext vault = (countFilesWithExtension ext vault > 0)"

definition countFilesInDirectory :: "node \<Rightarrow> nat" where
  "countFilesInDirectory dir =
     (case dir of
        Dir items \<Rightarrow>
          if list_ex (\<lambda>(item, n). n = Missing) items then 0
          else length (filter (\<lambda>(item, n). isFile n) items)
      | _ \<Rightarrow> 0)"

fun getDirectorySize :: "node \<Rightarrow> nat"
  and size_items :: "(string \<times> node) list \<Rightarrow> nat" where
  "getDirectorySize (Dir items) = size_items items"
| "getDirectorySize Missing = 0"
| "getDirectorySize (File sz re) = 0"
| "size_items [] = 0"
| "size_items ((item, Missing) # rest) = 0"
| "size_items ((item, Dir sub) # rest) = getDirectorySize (Dir sub) + size_items rest"
| "size_items ((item, File sz re) # rest) = sz + size_items rest"

fun getMaxDirectoryDepth :: "node \<Rightarrow> nat \<Rightarrow> nat"
  and depth_items :: "(string \<times> node) list \<Rightarrow> nat \<Rightarrow> nat \<Rightarrow> nat" where
  "getMaxDirectoryDepth (Dir items) currentDepth = depth_items items currentDepth currentDepth"
| "getMaxDirectoryDepth Missing currentDepth = currentDepth"
| "getMaxDirectoryDepth (File sz re) currentDepth = currentDepth"
| "depth_items [] currentDepth maxDepth = maxDepth"
| "depth_items ((item, Missing) # rest) currentDepth maxDepth =
     (if startsWith item ''.'' then depth_items rest currentDepth maxDepth else maxDepth)"
| "depth_items ((item, Dir sub) # rest) currentDepth maxDepth =
     (if startsWith item ''.'' then depth_items rest currentDepth maxDepth
      else depth_items rest currentDepth
             (max maxDepth (getMaxDirectoryDepth (Dir sub) (currentDepth + 1))))"
| "depth_items ((item, File sz re) # rest) currentDepth maxDepth =
     depth_items rest currentDepth maxDepth"

fun findLargeFiles :: "vpath \<Rightarrow> node \<Rightarrow> nat \<Rightarrow> (vpath \<times> nat) list"
  and large_items :: "vpath \<Rightarrow> (string \<times> node) list \<Rightarrow> nat \<Rightarrow> (vpath \<times> nat) list" where
  "findLargeFiles p (Dir items) sizeThreshold = large_items p items sizeThreshold"
| "findLargeFiles p Missing sizeThreshold = []"
| "findLargeFiles p (File sz re) sizeThreshold = []"
| "large_items p [] sizeThreshold = []"
| "large_items p ((item, Missing) # rest) sizeThreshold =
     (if startsWith item ''.'' then large_items p rest sizeThreshold else [])"
| "large_items p ((item, Dir sub) # rest) sizeThreshold =
     (if startsWith item ''.'' then large_items p rest sizeThreshold
      else findLargeFiles (p @ [item]) (Dir sub) sizeThreshold @ large_items p rest sizeThreshold)"
| "large_items p ((item, File sz re) # rest) sizeThreshold =
     (if startsWith item ''.'' then large_items p rest sizeThreshold
      else (if sz > sizeThreshold then [(p @ [item], sz)] else [])
           @ large_items p rest sizeThreshold)"

definition checkForLargeFiles :: "node \<Rightarrow> report \<Rightarrow> report" where
  "checkForLargeFiles vault r =
     (let largeFiles = findLargeFiles [] vault (50 * 1024 * 1024) in
      if length largeFiles > 0
      then (push_warning ''LARGE_FILES_DETECTED'' None r)
             \<lparr>suggestions := suggestions (push_warning ''LARGE_FILES_DETECTED'' None r) @ largeFiles\<rparr>
      else r)"

text \<open>\<open>validateJsonFile\<close> is called on paths that exist; reading a directory throws.\<close>

definition validateJsonFile :: "node \<Rightarrow> vpath \<Rightarrow> report \<Rightarrow> report" where
  "validateJsonFile file filePath r =
     (case file of
        File sz None \<Rightarrow> r
      | _ \<Rightarrow> push_error ''INVALID_JSON'' (Some filePath) SeverityError r)"

definition validateBasicStructure :: "node \<Rightarrow> report \<Rightarrow> report" where
  "validateBasicStructure vault r =
     (if \<not> existsSync vault then push_error ''VAULT_NOT_FOUND'' (Some []) SeverityError r
      else if \<not> isDirectory vault then push_error ''VAULT_NOT_DIRECTORY'' (Some []) SeverityError r
      else if \<not> existsSync (child vault ''.obsidian'')
        then push_error ''OBSIDIAN_CONFIG_MISSING'' (Some [''.obsidian'']) SeverityError r
      else if \<not> isDirectory (child vault ''.obsidian'')
        then push_error ''OBSIDIAN_CONFIG_NOT_DIRECTORY'' (Some [''.obsidian'']) SeverityError r
      else r)"

definition validateObsidianConfig :: "node \<Rightarrow> report \<Rightarrow> report" where
  "validateObsidianConfig vault r =
     (let obsidian = child vault ''.obsidian'' in
      if \<not> existsSync obsidian then r
      else
        (let r = (if \<not> existsSync (child obsidian ''app.json'')
                  then push_warning ''APP_JSON_MISSING'' (Some [''.obsidian'', ''app.json'']) r
                  else validateJsonFile (child obsidian ''app.json'') [''.obsidian'', ''app.json''] r);
             r = (if \<not> existsSync (child obsidian ''workspace.json'')
                  then push_warning ''WORKSPACE_JSON_MISSING'' (Some [''.obsidian'', ''workspace.json'']) r
                  else validateJsonFile (child obsidian ''workspace.json'') [''.obsidian'', ''workspace.json''] r);
             r = (if existsSync (child obsidian ''community-plugins.json'')
                  then (let r = validateJsonFile (child obsidian ''community-plugins.json'')
                                  [''.obsidian'', ''community-plugins.json''] r
                        in if \<not> existsSync (child obsidian ''plugins'')
                           then push_warning ''PLUGINS_DIRECTORY_MISSING'' (Some [''.obsidian'', ''plugins'']) r
                           else r)
                  else r);
             r = (if existsSync (child obsidian ''core-plugins.json'')
                  then validateJsonFile (child obsidian ''core-plugins.json'')
                         [''.obsidian'', ''core-plugins.json''] r
                  else r)
         in r))"

definition validatePluginConfig :: "node \<Rightarrow> report \<Rightarrow> report" where
  "validatePluginConfig vault r =
     (let pluginsDir = child (child vault ''.obsidian'') ''plugins'' in
      if \<not> existsSync pluginsDir then r
      else
        (let htmlExportPluginDir = child pluginsDir ''webpage-html-export'';
             r = (if existsSync htmlExportPluginDir \<and> existsSync (child htmlExportPluginDir ''data.json'')
                  then validateJsonFile (child htmlExportPluginDir ''data.json'')
                         [''.obsidian'', ''plugins'', ''webpage-html-export'', ''data.json''] r
                  else r)
         in fold (\<lambda>pluginId r.
                    if existsSync (child pluginsDir pluginId)
                    then push_warning ''POTENTIALLY_PROBLEMATIC_PLUGIN''
                           (Some [''.obsidian'', ''plugins'', pluginId]) r
                    else r)
              [''obsidian-git'', ''obsidian-sync''] r))"

definition validateContent :: "node \<Rightarrow> report \<Rightarrow> report" where
  "validateContent vault r =
     (let r = (if \<not> hasFilesWithExtension ''.md'' vault
               then push_warning ''NO_MARKDOWN_FILES'' None r else r);
          r = (if existsSync (child vault ''assets'') \<and> countFilesInDirectory (child vault ''assets'') > 1000
               then push_warning ''LARGE_ASSETS_DIRECTORY'' (Some [''assets'']) r else r);
          r = fold (\<lambda>dirName r.
                      if existsSync (child vault dirName) \<and> countFilesInDirectory (child vault dirName) > 500
                      then push_warning ''LARGE_ATTACHMENT_DIRECTORY'' (Some [dirName]) r
                      else r)
                [''attachments'', ''files'', ''images'', ''media''] r
      in checkForLargeFiles vault r)"

definition validatePerformance :: "node \<Rightarrow> report \<Rightarrow> report" where
  "validatePerformance vault r =
     (let r = (if countFilesWithExtension ''.md'' vault > 5000
               then push_warning ''LARGE_VAULT_SIZE'' None r else r);
          r = (if getDirectorySize vault > 1000 * (1024 * 1024)
               then push_warning ''LARGE_VAULT_DISK_SIZE'' None r else r);
          r = (if getMaxDirectoryDepth vault 0 > 10
               then push_warning ''DEEP_DIRECTORY_STRUCTURE'' None r else r)
      in r)"

text \<open>
  \<open>validateVault\<close>: the checks run in order on the three lists, and \<open>isValid\<close> is computed
  from the list of errors at the end.
\<close>

definition run_checks :: "node \<Rightarrow> report" where
  "run_checks vault =
     (let r = \<lparr> errors = [], warnings = [], suggestions = [] \<rparr>;
          r = validateBasicStructure vault r;
          r = validateObsidianConfig vault r;
          r = validatePluginConfig vault r;
          r = validateContent vault r;
          r = validatePerformance vault r
      in r)"

definition validateVault :: "node \<Rightarrow> ValidationResult" where
  "validateVault vault =
     (let r = run_checks vault;
          isValid = (length (filter (\<lambda>e. e_severity e = SeverityError) (errors r)) = 0)
      in \<lparr> errors = errors r, warnings = warnings r, suggestions = suggestions r,
           isValid = isValid \<rparr>)"

section \<open>docker-logger: the structured logger\<close>

text \<open>
  Clock readings (time stamps, durations, the operation id) and the percentage of a
  progress entry, a floating point value, are not modelled. A log entry keeps the level,
  the message, the property names of the context object, the error and the progress
  counters; a message that interpolates a number or a text that is not modelled is
  given by its fixed part. What is written to the console is recorded as the console
  method called and the item printed; the formatting of an item into text is not
  modelled. The console is kept in the same state record as the logger.
\<close>

datatype LogLevel = DEBUG | INFO | WARN | ERROR

fun level_num :: "LogLevel \<Rightarrow> nat" where
  "level_num DEBUG = 0"
| "level_num INFO = 1"
| "level_num WARN = 2"
| "level_num ERROR = 3"

record TroubleshootingInfo =
  errorCode :: string
  description :: string
  possibleCauses :: "string list"
  solutions :: "string list"
  documentationLinks :: "string list option"

type_synonym log_context = "string list"

record ProgressInfo =
  current :: nat
  total :: nat
  stage :: string

record LogEntry =
  level :: LogLevel
  message :: string
  entry_context :: "log_context option"
  error :: "js_error option"
  progress :: "ProgressInfo option"

text \<open>
  The summary report gives the number of error entries and of warning entries, the
  status and their messages; the model keeps the entries and the status.
\<close>

record SummaryReport =
  report_errors :: "LogEntry list"
  report_warnings :: "LogEntry list"
  report_status :: string

datatype console_method = ConsoleLog | ConsoleWarn | ConsoleError

datatype console_item =
    EntryLine LogEntry
  | ErrorStack js_error
  | ContextDump log_context
  | CIAnnotation LogEntry
  | TroubleshootingBlock TroubleshootingInfo
  | SummaryText SummaryReport
  | ValidationReportText ValidationResult
  | Printed string

record DockerLogger =
  logLevel :: LogLevel
  isCI :: bool
  logEntries :: "LogEntry list"
  console :: "(console_method \<times> console_item) list"

definition parseLogLevel :: "string \<Rightarrow> LogLevel" where
  "parseLogLevel lv =
     (if toUpperCase lv = ''DEBUG'' then DEBUG
      else if toUpperCase lv = ''INFO'' then INFO
      else if toUpperCase lv = ''WARN'' then WARN
      else if toUpperCase lv = ''ERROR'' then ERROR
      else INFO)"

definition detectCIEnvironment :: "env \<Rightarrow> bool" where
  "detectCIEnvironment e =
     (truthy (e ''CI'') \<or> truthy (e ''GITHUB_ACTIONS'') \<or> truthy (e ''GITLAB_CI'') \<or>
      truthy (e ''JENKINS_URL'') \<or> truthy (e ''BUILDKITE'') \<or> truthy (e ''CIRCLECI''))"

text \<open>The constructor: \<open>process.env.LOG_LEVEL || 'INFO'\<close> is parsed once, here.\<close>

definition new_DockerLogger :: "env \<Rightarrow> DockerLogger" where
  "new_DockerLogger e =
     \<lparr> logLevel = parseLogLevel (if truthy (e ''LOG_LEVEL'') then the (e ''LOG_LEVEL'') else ''INFO''),
       isCI = detectCIEnvironment e,
       logEntries = [],
       console = [] \<rparr>"

text \<open>
  \<open>getInstance\<close>: the static field \<open>instance\<close> is the second argument, \<open>None\<close> before the
  first call. The result is the instance, which the static field holds afterwards.
\<close>

definition getInstance :: "env \<Rightarrow> DockerLogger option \<Rightarrow> DockerLogger" where
  "getInstance e inst = (case inst of None \<Rightarrow> new_DockerLogger e | Some lg \<Rightarrow> lg)"

definition getLogger :: "env \<Rightarrow> DockerLogger option \<Rightarrow> DockerLogger" where
  "getLogger e inst = getInstance e inst"

definition outputLog :: "DockerLogger \<Rightarrow> LogEntry \<Rightarrow> DockerLogger" where
  "outputLog lg entry =
     lg\<lparr>console := console lg
        @ (case level entry of
             ERROR \<Rightarrow>
               [(ConsoleError, EntryLine entry)]
               @ (case error entry of
                    Some err \<Rightarrow> if level_num (logLevel lg) \<le> level_num DEBUG
                                then [(ConsoleError, ErrorStack err)] else []
                  | None \<Rightarrow> [])
           | WARN \<Rightarrow> [(ConsoleWarn, EntryLine entry)]
           | _ \<Rightarrow> [(ConsoleLog, EntryLine entry)])
        @ (case entry_context entry of
             Some ctx \<Rightarrow> if level_num (logLevel lg) \<le> level_num DEBUG
                         then [(ConsoleLog, ContextDump ctx)] else []
           | None \<Rightarrow> [])
        @ (if isCI lg \<and> level_num (level entry) \<ge> level_num WARN
           then [(ConsoleLog, CIAnnotation entry)] else [])\<rparr>"

definition log :: "DockerLogger \<Rightarrow> LogLevel \<Rightarrow> string \<Rightarrow> log_context option \<Rightarrow> js_error option
                     \<Rightarrow> ProgressInfo option \<Rightarrow> DockerLogger" where
  "log lg lv msg ctx err prog =
     (if level_num lv < level_num (logLevel lg) then lg
      else (let entry = \<lparr> level = lv, message = msg, entry_context = ctx, error = err, progress = prog \<rparr>
            in outputLog (lg\<lparr>logEntries := logEntries lg @ [entry]\<rparr>) entry))"

definition debug :: "DockerLogger \<Rightarrow> string \<Rightarrow> log_context option \<Rightarrow> DockerLogger" where
  "debug lg msg ctx = log lg DEBUG msg ctx None None"

definition info :: "DockerLogger \<Rightarrow> string \<Rightarrow> log_context option \<Rightarrow> DockerLogger" where
  "info lg msg ctx = log lg INFO msg ctx None None"

definition warn :: "DockerLogger \<Rightarrow> string \<Rightarrow> log_context option \<Rightarrow> DockerLogger" where
  "warn lg msg ctx = log lg WARN msg ctx None None"

definition log_error :: "DockerLogger \<Rightarrow> string \<Rightarrow> js_error option \<Rightarrow> log_context option \<Rightarrow> DockerLogger" where
  "log_error lg msg err ctx = log lg ERROR msg ctx err None"

text \<open>
  \<open>progress\<close>. The default message \<open>stage: current/total (percentage%)\<close> is formatted from
  numbers; the model takes the message as given by the caller, or the stage name.

  When the entry is not below the minimum level, \<open>log\<close> adds it to the entries and
  \<open>outputLog\<close> draws the progress bar before it writes anything: \<open>generateProgressBar\<close>
  repeats a block \<open>filled\<close> times and a space \<open>20 - filled\<close> times, and \<open>repeat\<close> throws a
  \<open>RangeError\<close> when \<open>filled\<close> is above 20 or infinite. With
  \<open>percentage = Math.round((current / total) * 100)\<close> and
  \<open>filled = Math.round((percentage / 100) * 20)\<close> in double precision this is the case
  exactly when \<open>40 * current > 41 * total\<close>, for counts of the size of a number of files
  (at the tie \<open>current / total = 41 / 40\<close> the product is rounded below 102.5). The
  exception leaves the entry in the list and nothing on the console; its message is
  the one of the engine. \<open>log\<close> is private; \<open>progress\<close> is its only caller that passes
  progress counters.
\<close>

definition progress_bar_fails :: "nat \<Rightarrow> nat \<Rightarrow> bool" where
  "progress_bar_fails cur tot = (40 * cur > 41 * tot)"

definition log_progress ::
  "DockerLogger \<Rightarrow> string \<Rightarrow> nat \<Rightarrow> nat \<Rightarrow> string option \<Rightarrow> js_error option \<times> DockerLogger" where
  "log_progress lg stg cur tot msg =
     (let progressMessage = (case msg of Some m \<Rightarrow> if m = [] then stg else m | None \<Rightarrow> stg);
          progressInfo = \<lparr> current = cur, total = tot, stage = stg \<rparr>
      in if \<not> level_num INFO < level_num (logLevel lg) \<and> progress_bar_fails cur tot
         then (Some (JsError ''RangeError'' None ''Invalid count value''),
               lg\<lparr>logEntries := logEntries lg
                    @ [\<lparr> level = INFO, message = progressMessage, entry_context = None,
                          error = None, progress = Some progressInfo \<rparr>]\<rparr>)
         else (None, log lg INFO progressMessage None None (Some progressInfo)))"

definition startOperation :: "DockerLogger \<Rightarrow> string \<Rightarrow> log_context \<Rightarrow> DockerLogger" where
  "startOperation lg operation ctx = info lg (''Starting: '' @ operation) (Some (ctx @ [''operationId'']))"

definition endOperation :: "DockerLogger \<Rightarrow> string \<Rightarrow> log_context \<Rightarrow> DockerLogger" where
  "endOperation lg operation ctx =
     log lg INFO (''Completed: '' @ operation) (Some (ctx @ [''operationId''])) None None"

definition errorWithTroubleshooting :: "DockerLogger \<Rightarrow> string \<Rightarrow> TroubleshootingInfo \<Rightarrow> js_error option \<Rightarrow> DockerLogger" where
  "errorWithTroubleshooting lg msg troubleshooting err =
     (let lg = log_error lg msg err (Some [''troubleshooting''])
      in if isCI lg then lg\<lparr>console := console lg @ [(ConsoleError, TroubleshootingBlock troubleshooting)]\<rparr>
         else lg)"

definition generateSummaryReport :: "DockerLogger \<Rightarrow> SummaryReport" where
  "generateSummaryReport lg =
     (let errors = filter (\<lambda>entry. level entry = ERROR) (logEntries lg);
          warnings = filter (\<lambda>entry. level entry = WARN) (logEntries lg)
      in \<lparr> report_errors = errors, report_warnings = warnings,
           report_status = (if length errors = 0 then ''SUCCESS'' else ''FAILED'') \<rparr>)"

text \<open>The troubleshooting bundles the export refers to.\<close>

definition VAULT_NOT_FOUND :: TroubleshootingInfo where
  "VAULT_NOT_FOUND =
     \<lparr> errorCode = ''VAULT_NOT_FOUND'',
       description = ''The specified vault directory could not be found'',
       possibleCauses = [''Incorrect vault path specified'',
                         ''Vault directory not mounted in Docker container'',
                         ''Permission issues accessing the vault directory''],
       solutions = [''Verify the vault path is correct'',
                    ''Ensure the vault directory is properly mounted with -v flag'',
                    ''Check file permissions and ownership'',
                    ''Use absolute paths when mounting volumes''],
       documentationLinks = Some [''https://docs.docker.com/storage/volumes/'',
         ''https://github.com/KosmosisDire/obsidian-webpage-export/blob/master/docs/docker-automation-guide.md''] \<rparr>"

definition INVALID_OBSIDIAN_VAULT :: TroubleshootingInfo where
  "INVALID_OBSIDIAN_VAULT =
     \<lparr> errorCode = ''INVALID_OBSIDIAN_VAULT'',
       description = ''The directory does not appear to be a valid Obsidian vault'',
       possibleCauses = [''Missing .obsidian configuration directory'',
                         ''Vault has never been opened in Obsidian'',
                         ''Corrupted vault configuration''],
       solutions = [''Open the vault in Obsidian to initialize configuration'',
                    ''Check that .obsidian directory exists and contains app.json'',
                    ''Create a new vault and copy content if configuration is corrupted''],
       documentationLinks = None \<rparr>"

definition PERMISSION_DENIED :: TroubleshootingInfo where
  "PERMISSION_DENIED =
     \<lparr> errorCode = ''PERMISSION_DENIED'',
       description = ''Permission denied when accessing vault files'',
       possibleCauses = [''Docker container running with insufficient permissions'',
                         ''File ownership issues between host and container'',
                         ''SELinux or AppArmor restrictions''],
       solutions = [''Run Docker with --user flag matching host user'',
                    ''Use chown to fix file ownership issues'',
                    ''Add :Z flag to volume mounts for SELinux systems'',
                    ''Check Docker daemon permissions''],
       documentationLinks = None \<rparr>"

definition OUT_OF_MEMORY :: TroubleshootingInfo where
  "OUT_OF_MEMORY =
     \<lparr> errorCode = ''OUT_OF_MEMORY'',
       description = ''Export process ran out of memory'',
       possibleCauses = [''Vault is very large with many files'',
                         ''Large images or attachments consuming memory'',
                         ''Docker container memory limit too low''],
       solutions = [''Increase Docker container memory limit with --memory flag'',
                    ''Use exclude patterns to reduce export scope'',
                    ''Enable image optimization to reduce memory usage'',
                    ''Process vault in smaller batches''],
       documentationLinks = None \<rparr>"

section \<open>The Docker integration\<close>

text \<open>
  The overrides have the type \<open>Partial<WebConfig>\<close>: each of the five top-level
  properties is present or absent, and a section that is present is a whole section.
  \<open>Object.assign(config, overrides)\<close> copies the properties that are present.
\<close>

record PartialWebConfig =
  o_version :: "string option"
  o_site :: "SiteInfo option"
  o_features :: "Features option"
  o_seo :: "Seo option"
  o_advanced :: "Advanced option"

definition object_assign :: "WebConfig \<Rightarrow> PartialWebConfig \<Rightarrow> WebConfig" where
  "object_assign config ov =
     \<lparr> version = (case o_version ov of Some v \<Rightarrow> v | None \<Rightarrow> version config),
       site = (case o_site ov of Some v \<Rightarrow> v | None \<Rightarrow> site config),
       features = (case o_features ov of Some v \<Rightarrow> v | None \<Rightarrow> features config),
       seo = (case o_seo ov of Some v \<Rightarrow> v | None \<Rightarrow> seo config),
       advanced = (case o_advanced ov of Some v \<Rightarrow> v | None \<Rightarrow> advanced config) \<rparr>"

record DockerExportOptions =
  vaultPath :: string
  outputPath :: string
  configOverrides :: "PartialWebConfig option"
  validateVault_option :: "bool option"
  logLevel_option :: "string option"

text \<open>
  The lists \<open>warnings\<close> and \<open>errors\<close> of a result hold messages; the message of a validation
  entry is represented by the entry.
\<close>

datatype result_message =
    Text string
  | WarningMessage ValidationWarning
  | ErrorMessage ValidationError

record DockerExportResult =
  success :: bool
  result_outputPath :: string
  filesGenerated :: nat
  result_warnings :: "result_message list"
  result_errors :: "result_message list"
  validationResult :: "ValidationResult option"

text \<open>
  A private method called inside the \<open>try\<close> block of \<open>exportForDocker\<close> is described by
  its outcome, a value or a thrown exception, and by what it does to the logger and
  the console. The three methods, as the source defines them, follow.
\<close>

type_synonym 'a step = "(js_error + 'a) \<times> (DockerLogger \<Rightarrow> DockerLogger)"

definition featuresEnabled :: "Features \<Rightarrow> nat" where
  "featuresEnabled f =
     length (filter id [search f, graphView f, navigation f, themeToggle f,
                        backlinks f, tags f, outline f, sidebar f])"

definition loadConfiguration ::
  "(string \<Rightarrow> js_error + 'u) \<Rightarrow> (string \<Rightarrow> js_error + MetaTag list option) \<Rightarrow> env
     \<Rightarrow> PartialWebConfig option \<Rightarrow> WebConfig step" where
  "loadConfiguration newURL parseJSON e overrides =
     (let loaded = loadFromEnvironment parseJSON e;
          warned = (\<lambda>lg. lg\<lparr>console := console lg @ map (\<lambda>w. (ConsoleWarn, Printed w)) (snd loaded)\<rparr>);
          config = (case overrides of Some ov \<Rightarrow> object_assign (fst loaded) ov | None \<Rightarrow> fst loaded)
      in case validateEnvironmentConfig newURL config of
           Inl err \<Rightarrow> (Inl err, warned)
         | Inr errs \<Rightarrow>
             (Inr config,
              \<lambda>lg. (let lg = warned lg;
                         lg = (if length errs > 0
                               then fold (\<lambda>err lg. warn lg (''Config: '' @ err) None) errs
                                      (warn lg ''Configuration validation warnings:'' (Some [''errors'']))
                               else lg)
                     in debug lg ''Loaded configuration''
                          (Some [''siteName'', ''siteUrl'', ''featuresEnabled'', ''excludePatterns'']))))"

definition integration_validateVault :: "(string \<Rightarrow> node) \<Rightarrow> string \<Rightarrow> ValidationResult step" where
  "integration_validateVault fs path =
     (let result = validateVault (fs path)
      in (Inr result,
          \<lambda>lg. (let lg = debug lg ''Vault validation completed''
                            (Some [''isValid'', ''errorCount'', ''warningCount''])
                 in if level_num (logLevel lg) \<le> 0
                    then lg\<lparr>console := console lg @ [(ConsoleLog, ValidationReportText result)]\<rparr>
                    else lg)))"

text \<open>
  \<open>performExport\<close> simulates the export. Its body is a \<open>try\<close> block whose \<open>catch\<close> returns
  a failed result; the calls in it that can throw are the progress calls, and with
  the counts they are given, 0 to 100 of 100, none of them does. So the result is
  the simulated success, and the effect is the six progress entries.
\<close>

definition performExport :: "string \<Rightarrow> string \<Rightarrow> WebConfig \<Rightarrow> DockerExportResult step" where
  "performExport vault_path output_path config =
     (Inr \<lparr> success = True, result_outputPath = output_path, filesGenerated = 150,
            result_warnings = [], result_errors = [], validationResult = None \<rparr>,
      \<lambda>lg. (let lg = snd (log_progress lg ''Initializing'' 0 100 None);
                 lg = snd (log_progress lg ''Processing vault'' 20 100 None);
                 lg = snd (log_progress lg ''Optimizing assets'' 40 100 None);
                 lg = snd (log_progress lg ''Generating pages'' 60 100 None);
                 lg = snd (log_progress lg ''Creating search index'' 80 100 None);
                 lg = snd (log_progress lg ''Finalizing export'' 100 100 None)
             in lg))"

record docker_steps =
  step_loadConfiguration :: "PartialWebConfig option \<Rightarrow> WebConfig step"
  step_validateVault :: "string \<Rightarrow> ValidationResult step"
  step_performExport :: "string \<Rightarrow> string \<Rightarrow> WebConfig \<Rightarrow> DockerExportResult step"

definition source_steps ::
  "(string \<Rightarrow> js_error + 'u) \<Rightarrow> (string \<Rightarrow> js_error + MetaTag list option) \<Rightarrow> env
     \<Rightarrow> (string \<Rightarrow> node) \<Rightarrow> docker_steps" where
  "source_steps newURL parseJSON e fs =
     \<lparr> step_loadConfiguration = loadConfiguration newURL parseJSON e,
       step_validateVault = integration_validateVault fs,
       step_performExport = performExport \<rparr>"

text \<open>
  \<open>exportForDocker\<close>. The \<open>try\<close> block returns its result or the exception thrown in it,
  with the logger as it is at that point; the \<open>catch\<close> block turns the exception into
  a result.
\<close>

definition log_validation_warnings :: "ValidationResult \<Rightarrow> DockerLogger \<Rightarrow> DockerLogger" where
  "log_validation_warnings vr lg =
     (if length (warnings vr) > 0
      then fold (\<lambda>warning lg. warn lg (''['' @ w_code warning @ '']'') (Some [''path'']))
             (warnings vr)
             (warn lg ''Vault validation completed with warnings'' None)
      else lg)"

definition export_phase ::
  "docker_steps \<Rightarrow> DockerExportOptions \<Rightarrow> WebConfig \<Rightarrow> ValidationResult option \<Rightarrow> DockerLogger
     \<Rightarrow> (js_error + DockerExportResult) \<times> DockerLogger" where
  "export_phase steps options config vr lg =
     (let lg = info lg ''Starting web export process'' None;
          performed = step_performExport steps (vaultPath options) (outputPath options) config;
          lg = snd performed lg
      in case fst performed of
           Inl err \<Rightarrow> (Inl err, lg)
         | Inr exportResult \<Rightarrow>
             (let lg = endOperation lg ''Docker Export'' [''success'', ''filesGenerated''];
                  lg = (if success exportResult
                        then info lg ''Docker export completed successfully''
                               (Some [''duration'', ''filesGenerated'', ''outputPath''])
                        else log_error lg ''Docker export failed'' None (Some [''duration'', ''errors'']));
                  lg = lg\<lparr>console := console lg @ [(ConsoleLog, SummaryText (generateSummaryReport lg))]\<rparr>
              in (Inr (exportResult\<lparr>validationResult := vr\<rparr>), lg)))"

definition try_exportForDocker ::
  "docker_steps \<Rightarrow> DockerExportOptions \<Rightarrow> DockerLogger \<Rightarrow> (js_error + DockerExportResult) \<times> DockerLogger" where
  "try_exportForDocker steps options lg =
     (let lg = info lg ''Loading configuration from environment variables'' None;
          loaded = step_loadConfiguration steps (configOverrides options);
          lg = snd loaded lg
      in case fst loaded of
           Inl err \<Rightarrow> (Inl err, lg)
         | Inr config \<Rightarrow>
             if validateVault_option options \<noteq> Some False then
               (let lg = info lg ''Validating vault structure and configuration'' None;
                    validated = step_validateVault steps (vaultPath options);
                    lg = snd validated lg
                in case fst validated of
                     Inl err \<Rightarrow> (Inl err, lg)
                   | Inr vr \<Rightarrow>
                       if \<not> isValid vr then
                         (Inr \<lparr> success = False, result_outputPath = outputPath options,
                                filesGenerated = 0,
                                result_warnings = map WarningMessage (warnings vr),
                                result_errors = map ErrorMessage (errors vr),
                                validationResult = Some vr \<rparr>,
                          errorWithTroubleshooting lg
                            ''Vault validation failed - cannot proceed with export''
                            INVALID_OBSIDIAN_VAULT None)
                       else export_phase steps options config (Some vr) (log_validation_warnings vr lg))
             else export_phase steps options config None lg)"

definition catch_exportForDocker ::
  "DockerExportOptions \<Rightarrow> DockerLogger \<Rightarrow> js_error \<Rightarrow> DockerExportResult \<times> DockerLogger" where
  "catch_exportForDocker options lg err =
     (let lg = endOperation lg ''Docker Export'' [''success''];
          errorMessage = ''Docker export failed: '' @ err_message err;
          lg = (if err_code err = Some ''ENOENT''
                then errorWithTroubleshooting lg errorMessage VAULT_NOT_FOUND (Some err)
                else if err_code err = Some ''EACCES''
                then errorWithTroubleshooting lg errorMessage PERMISSION_DENIED (Some err)
                else if str_includes (err_message err) ''out of memory''
                then errorWithTroubleshooting lg errorMessage OUT_OF_MEMORY (Some err)
                else log_error lg errorMessage (Some err) None);
          lg = lg\<lparr>console := console lg @ [(ConsoleLog, SummaryText (generateSummaryReport lg))]\<rparr>
      in (\<lparr> success = False, result_outputPath = outputPath options, filesGenerated = 0,
            result_warnings = [], result_errors = [Text errorMessage],
            validationResult = None \<rparr>, lg))"

definition exportForDocker ::
  "docker_steps \<Rightarrow> DockerExportOptions \<Rightarrow> DockerLogger \<Rightarrow> DockerExportResult \<times> DockerLogger" where
  "exportForDocker steps options lg =
     (let lg = startOperation lg ''Docker Export'' [''vaultPath'', ''outputPath''];
          attempt = try_exportForDocker steps options lg
      in case fst attempt of
           Inr result \<Rightarrow> (result, snd attempt)
         | Inl err \<Rightarrow> catch_exportForDocker options (snd attempt) err)"

text \<open>
  \<open>runDockerExport\<close>: the command line is \<open>process.argv\<close>, the static logger instance is
  \<open>inst\<close>; the result is the code given to \<open>process.exit\<close> and the logger at that point.
\<close>

definition first_truthy :: "string option list \<Rightarrow> string \<Rightarrow> string" where
  "first_truthy candidates fallback =
     (case filter truthy candidates of Some v # rest \<Rightarrow> v | _ \<Rightarrow> fallback)"

definition nth_opt :: "'a list \<Rightarrow> nat \<Rightarrow> 'a option" where
  "nth_opt xs i = (if i < length xs then Some (xs ! i) else None)"

definition cli_options :: "env \<Rightarrow> string list \<Rightarrow> DockerExportOptions" where
  "cli_options e argv =
     (let args = drop 2 argv;
          vault_path = first_truthy [nth_opt args 0, e ''VAULT_PATH''] ''/vault'';
          output_path = first_truthy [nth_opt args 1, e ''OUTPUT_PATH''] ''/output''
      in \<lparr> vaultPath = vault_path, outputPath = output_path, configOverrides = None,
           validateVault_option = Some True, logLevel_option = None \<rparr>)"

definition runDockerExport ::
  "docker_steps \<Rightarrow> env \<Rightarrow> string list \<Rightarrow> DockerLogger option \<Rightarrow> nat \<times> DockerLogger" where
  "runDockerExport steps e argv inst =
     (let logger = getLogger e inst;
          options = cli_options e argv;
          logger = info logger ''Starting Docker export'' (Some [''vaultPath'', ''outputPath'']);
          logger = getLogger e (Some logger);
          exported = exportForDocker steps options logger
      in (if success (fst exported) then 0 else 1, snd exported))"

section \<open>web-export-manager: one export run\<close>

text \<open>
  The classes \<open>Path\<close>, \<open>Website\<close>, \<open>Utils\<close>, \<open>ExportLog\<close>, \<open>Notice\<close> and
  \<open>MarkdownRendererAPI\<close> are collaborators of the export manager. A \<open>Path\<close> is the record of
  the properties the manager reads. A \<open>Website\<close> is the part of its index the manager
  reads. What the collaborators do when called is given by the record \<open>collaborators\<close>:
  an operation that may throw returns the exception or its value. The calls the manager
  makes are recorded, in order, as a list of events. The argument of
  \<open>addToProgressCap\<close> is a quotient and is recorded as its two numbers; of a call of
  \<open>ExportLog.progress\<close> the title and the message are recorded. The pictograms at the
  start of the notices are left out of the texts.
\<close>

record Path =
  path_string :: string
  path_extension :: string
  path_isAbsolute :: bool
  path_isDirectory :: bool
  path_exists :: bool

record Attachment =
  attachment_name :: string
  is_webpage :: bool

record Website =
  deletedFiles :: "string list option"
  newFiles :: "Attachment list"
  updatedFiles :: "Attachment list"
  websiteDataAttachment :: Attachment
  indexDataAttachment :: Attachment

record collaborators =
  new_Path :: "string \<Rightarrow> string \<Rightarrow> Path"
  delete_path :: "Path \<Rightarrow> js_error option"
  removeEmptyDirectories :: "string \<Rightarrow> js_error option"
  createDirectory :: "Path \<Rightarrow> js_error option"
  build_website :: "Path \<Rightarrow> string list \<Rightarrow> js_error + Website option"
  downloadAttachments :: "Attachment list \<Rightarrow> js_error option"
  obsidian_config_exists :: bool
  app_config_exists :: bool

datatype event =
    Notice string
  | LogError string string
  | LogLine string
  | AddToProgressCap nat nat
  | Progress string string
  | BeginBatch
  | EndBatch
  | CreateDirectory Path
  | Build Path "string list"
  | Delete Path
  | RemoveEmptyDirectories string
  | Download "Attachment list"

text \<open>
  \<open>String(error)\<close> and \<open>${error}\<close> of an \<open>Error\<close> object: the name and the message with a
  colon between them, or the one of the two that is not empty.
\<close>

definition error_toString :: "js_error \<Rightarrow> string" where
  "error_toString err =
     (if err_name err = [] then err_message err
      else if err_message err = [] then err_name err
      else err_name err @ '': '' @ err_message err)"

definition validateVaultStructure :: "collaborators \<Rightarrow> string option \<times> event list" where
  "validateVaultStructure w =
     (if \<not> obsidian_config_exists w
      then (Some ''Invalid vault: .obsidian directory not found. Please ensure you're exporting from a valid Obsidian vault.'', [])
      else (None,
            if \<not> app_config_exists w
            then [LogLine ''Warning: app.json not found in .obsidian directory. Some features may not work correctly.'']
            else []))"

text \<open>\<open>validateExportInputs\<close> returns the error of a failed validation, or \<open>None\<close>.\<close>

definition validateExportInputs :: "collaborators \<Rightarrow> string list \<Rightarrow> Path \<Rightarrow> string option \<times> event list" where
  "validateExportInputs w files destination =
     (if length files = 0 then (Some ''No files selected for export'', [])
      else if \<not> path_isAbsolute destination then (Some ''Export path must be absolute'', [])
      else if \<not> path_isDirectory destination then (Some ''Export path must be a directory'', [])
      else if \<not> path_exists destination then
        (case createDirectory w destination of
           Some err \<Rightarrow> (Some (''Cannot create export directory: '' @ err_message err),
                        [CreateDirectory destination])
         | None \<Rightarrow> (fst (validateVaultStructure w),
                     [CreateDirectory destination] @ snd (validateVaultStructure w)))
      else validateVaultStructure w)"

definition isFontFile :: "Path \<Rightarrow> bool" where
  "isFontFile filePath =
     (toLowerCase (path_extension filePath) \<in> set [''woff'', ''woff2'', ''ttf'', ''otf''])"

text \<open>The loop of \<open>cleanupOldFiles\<close> over the deleted files, one file at a time.\<close>

fun delete_loop :: "collaborators \<Rightarrow> Path \<Rightarrow> string list \<Rightarrow> event list" where
  "delete_loop w destination [] = []"
| "delete_loop w destination (deletedFile # rest) =
     (let filePath = new_Path w deletedFile (path_string destination) in
      if isFontFile filePath
      then Progress ''Deleting Old Files'' (''Skipping: '' @ path_string filePath)
           # delete_loop w destination rest
      else (case delete_path w filePath of
              None \<Rightarrow> [Delete filePath,
                        Progress ''Deleting Old Files'' (''Deleting: '' @ path_string filePath)]
            | Some err \<Rightarrow> [Delete filePath,
                            LogLine (''Warning: Could not delete file '' @ path_string filePath
                                     @ '': '' @ error_toString err)])
           @ delete_loop w destination rest)"

definition cleanupOldFiles :: "collaborators \<Rightarrow> Website \<Rightarrow> Path \<Rightarrow> event list" where
  "cleanupOldFiles w website destination =
     (case deletedFiles website of
        None \<Rightarrow> []
      | Some deleted \<Rightarrow>
          if length deleted = 0 then []
          else [AddToProgressCap (length deleted) 2]
               @ delete_loop w destination deleted
               @ [RemoveEmptyDirectories (path_string destination)]
               @ (case removeEmptyDirectories w (path_string destination) of
                    None \<Rightarrow> []
                  | Some err \<Rightarrow> [LogLine (''Warning: Could not remove empty directories: ''
                                           @ error_toString err)]))"

definition saveWebsiteFiles :: "collaborators \<Rightarrow> Website \<Rightarrow> js_error option \<times> event list" where
  "saveWebsiteFiles w website =
     (let assetFiles = filter (\<lambda>f. \<not> is_webpage f) (newFiles website)
                       @ filter (\<lambda>f. \<not> is_webpage f) (updatedFiles website);
          websiteDataFiles = [websiteDataAttachment website, indexDataAttachment website];
          failed = (\<lambda>err. Some (JsError ''Error'' None (''Failed to save website files: '' @ err_message err)))
      in case (if length assetFiles > 0 then downloadAttachments w assetFiles else None) of
           Some err \<Rightarrow> (failed err, [Download assetFiles])
         | None \<Rightarrow>
             (case downloadAttachments w websiteDataFiles of
                Some err \<Rightarrow> (failed err,
                             (if length assetFiles > 0 then [Download assetFiles] else [])
                             @ [Download websiteDataFiles])
              | None \<Rightarrow> (None,
                          (if length assetFiles > 0 then [Download assetFiles] else [])
                          @ [Download websiteDataFiles, LogLine ''Saved asset files and website data''])))"

text \<open>
  The \<open>try\<close> block of \<open>exportFiles\<close> returns the value it returns or the exception thrown
  in it; \<open>exportFiles\<close> adds the \<open>catch\<close> block and, on every path, the \<open>finally\<close> block.
\<close>

definition try_exportFiles ::
  "collaborators \<Rightarrow> string list \<Rightarrow> Path \<Rightarrow> bool \<Rightarrow> bool \<Rightarrow> (js_error + Website option) \<times> event list" where
  "try_exportFiles w files destination saveFiles deleteOld =
     (case build_website w destination files of
        Inl err \<Rightarrow> (Inl err, [LogLine ''Starting web-optimized export...'', Build destination files])
      | Inr None \<Rightarrow> (Inr None, [LogLine ''Starting web-optimized export...'', Build destination files,
                                Notice ''Export Cancelled''])
      | Inr (Some website) \<Rightarrow>
          (let cleaned = (if deleteOld then cleanupOldFiles w website destination else []);
               saved = (if saveFiles then saveWebsiteFiles w website else (None, []));
               evs = [LogLine ''Starting web-optimized export...'', Build destination files]
                     @ cleaned @ snd saved
           in case fst saved of
                Some err \<Rightarrow> (Inl err, evs)
              | None \<Rightarrow> (Inr (Some website), evs @ [LogLine ''Web export completed successfully''])))"

definition exportFiles ::
  "collaborators \<Rightarrow> string list \<Rightarrow> Path \<Rightarrow> bool \<Rightarrow> bool \<Rightarrow> Website option \<times> event list" where
  "exportFiles w files destination saveFiles deleteOld =
     (let validationResult = validateExportInputs w files destination in
      case fst validationResult of
        Some err \<Rightarrow> (None, snd validationResult
                      @ [Notice (''Export validation failed: '' @ err),
                         LogError err ''Export Validation Failed''])
      | None \<Rightarrow>
          (let attempt = try_exportFiles w files destination saveFiles deleteOld in
           case fst attempt of
             Inr website \<Rightarrow> (website, snd validationResult @ [BeginBatch] @ snd attempt @ [EndBatch])
           | Inl err \<Rightarrow> (None, snd validationResult @ [BeginBatch] @ snd attempt
                               @ [Notice (''Export Failed: '' @ err_message err),
                                  LogError (err_message err) ''Export Failed'']
                               @ [EndBatch])))"

section \<open>Notions used in the statements, and sample inputs\<close>

text \<open>A string is non-blank when it has a character that \<open>trim\<close> does not remove.\<close>

definition nonblank :: "string \<Rightarrow> bool" where
  "nonblank s = (\<exists>c \<in> set s. \<not> is_ws c)"

text \<open>
  The sample inputs of the closed examples. \<open>sample_newURL\<close> agrees with the URL parser
  on the two strings the examples give it: it accepts \<open>https://example.com\<close> and throws
  on \<open>not a url\<close>. \<open>sample_parseJSON\<close> throws on every input but \<open>[]\<close>.
\<close>

definition sample_newURL :: "string \<Rightarrow> js_error + string" where
  "sample_newURL s =
     (if s = ''https://example.com'' then Inr s
      else Inl (JsError ''TypeError'' (Some ''ERR_INVALID_URL'') ''Invalid URL''))"

definition sample_parseJSON :: "string \<Rightarrow> js_error + MetaTag list option" where
  "sample_parseJSON s =
     (if s = ''[]'' then Inr (Some [])
      else Inl (JsError ''SyntaxError'' None ''Unexpected token''))"

definition config_blank_name :: WebConfig where
  "config_blank_name = DEFAULT_WEB_CONFIG\<lparr>site := (site DEFAULT_WEB_CONFIG)\<lparr>site_name := '' ''\<rparr>\<rparr>"

definition config_empty_analytics :: WebConfig where
  "config_empty_analytics =
     DEFAULT_WEB_CONFIG\<lparr>seo := (seo DEFAULT_WEB_CONFIG)\<lparr>googleAnalyticsId := Some []\<rparr>\<rparr>"

definition vault_config_is_file :: node where
  "vault_config_is_file = Dir [(''note.md'', File 120 None), (''.obsidian'', File 0 None)]"

definition vault_without_config :: node where
  "vault_without_config =
     Dir [(''note.md'', File 120 None),
          (''attachments'', Dir [(''video.mp4'', File 60000000 None)]),
          (''broken-link'', Missing)]"

definition vault_empty :: node where
  "vault_empty = Dir []"

definition vault_ready :: node where
  "vault_ready =
     Dir [(''.obsidian'', Dir [(''app.json'', File 2 None), (''workspace.json'', File 2 None)]),
          (''note.md'', File 120 None)]"

definition vault_with_warnings :: node where
  "vault_with_warnings = Dir [(''.obsidian'', Dir []), (''note.md'', File 120 None)]"

definition sample_env :: env where
  "sample_env =
     map_of [(''OBSIDIAN_SITE_FAVICON'', ''favicon.ico''),
             (''OBSIDIAN_FEATURE_SEARCH'', '' No ''),
             (''OBSIDIAN_FEATURE_TAGS'', ''maybe''),
             (''OBSIDIAN_OFFLINE_RESOURCES'', ''YES''),
             (''LOG_LEVEL'', ''warn'')]"

definition sample_site :: SiteInfo where
  "sample_site =
     \<lparr> site_name = ''Garden'', site_description = ''Notes'',
       site_url = ''https://example.com'', site_favicon = None \<rparr>"

definition sample_overrides :: PartialWebConfig where
  "sample_overrides =
     \<lparr> o_version = None, o_site = Some sample_site, o_features = None,
       o_seo = None, o_advanced = None \<rparr>"

text \<open>
  A run of the Docker export goes through when no step throws, the vault, if it is
  validated, is valid, and the export step reports success.
\<close>

definition run_goes_through :: "docker_steps \<Rightarrow> DockerExportOptions \<Rightarrow> bool" where
  "run_goes_through steps options =
     (case fst (step_loadConfiguration steps (configOverrides options)) of
        Inl err \<Rightarrow> False
      | Inr config \<Rightarrow>
          (validateVault_option options = Some False \<or>
           (case fst (step_validateVault steps (vaultPath options)) of
              Inl err \<Rightarrow> False
            | Inr vr \<Rightarrow> isValid vr))
          \<and> (case fst (step_performExport steps (vaultPath options) (outputPath options) config) of
                Inl err \<Rightarrow> False
              | Inr r \<Rightarrow> success r))"

definition sample_fs :: "string \<Rightarrow> node" where
  "sample_fs p =
     (if p = ''/vault'' then vault_ready
      else if p = ''/notes'' then vault_without_config
      else Missing)"

definition sample_steps :: docker_steps where
  "sample_steps = source_steps sample_newURL sample_parseJSON sample_env sample_fs"

definition broken_config_steps :: docker_steps where
  "broken_config_steps =
     sample_steps\<lparr>step_loadConfiguration :=
       (\<lambda>ov. (Inl (JsError ''TypeError'' None ''Cannot read properties of undefined (reading 'name')''), id))\<rparr>"

definition out_of_memory_steps :: docker_steps where
  "out_of_memory_steps =
     sample_steps\<lparr>step_performExport :=
       (\<lambda>v out config. (Inl (JsError ''Error'' None ''JavaScript heap out of memory''), id))\<rparr>"

definition denied_steps :: docker_steps where
  "denied_steps =
     sample_steps\<lparr>step_validateVault :=
       (\<lambda>p. (Inl (JsError ''Error'' (Some ''EACCES'') ''EACCES: permission denied, scandir''), id))\<rparr>"

text \<open>The two calls of the renderer that bracket a batch.\<close>

definition is_batch_event :: "event \<Rightarrow> bool" where
  "is_batch_event ev = (ev = BeginBatch \<or> ev = EndBatch)"

text \<open>
  A sample export: three files of the previous export are gone from the vault, one of
  them a font; deleting \<open>locked.html\<close> fails, and so does the sweep of the empty
  directories.
\<close>

definition sample_destination :: Path where
  "sample_destination =
     \<lparr> path_string = ''/output'', path_extension = [], path_isAbsolute = True,
       path_isDirectory = True, path_exists = True \<rparr>"

definition sample_website :: Website where
  "sample_website =
     \<lparr> deletedFiles = Some [''old/note.html'', ''fonts/Inter.WOFF2'', ''locked.html''],
       newFiles = [\<lparr> attachment_name = ''index.html'', is_webpage = True \<rparr>,
                   \<lparr> attachment_name = ''logo.png'', is_webpage = False \<rparr>],
       updatedFiles = [],
       websiteDataAttachment = \<lparr> attachment_name = ''metadata.json'', is_webpage = False \<rparr>,
       indexDataAttachment = \<lparr> attachment_name = ''search-index.json'', is_webpage = False \<rparr> \<rparr>"

definition sample_new_Path :: "string \<Rightarrow> string \<Rightarrow> Path" where
  "sample_new_Path file workingDirectory =
     \<lparr> path_string = workingDirectory @ ''/'' @ file,
       path_extension = (if file = ''fonts/Inter.WOFF2'' then ''WOFF2''
                         else if file = ''old/note.html'' \<or> file = ''locked.html'' then ''html''
                         else []),
       path_isAbsolute = True, path_isDirectory = False, path_exists = True \<rparr>"

definition sample_world :: collaborators where
  "sample_world =
     \<lparr> new_Path = sample_new_Path,
       delete_path = (\<lambda>p. if path_string p = ''/output/locked.html''
                          then Some (JsError ''Error'' (Some ''EBUSY'') ''EBUSY: resource busy or locked'')
                          else None),
       removeEmptyDirectories = (\<lambda>d. Some (JsError ''Error'' (Some ''EACCES'') ''EACCES: permission denied'')),
       createDirectory = (\<lambda>p. None),
       build_website = (\<lambda>d fs. Inr (Some sample_website)),
       downloadAttachments = (\<lambda>as. None),
       obsidian_config_exists = True,
       app_config_exists = True \<rparr>"

definition cancelled_world :: collaborators where
  "cancelled_world = sample_world\<lparr>build_website := (\<lambda>d fs. Inr None)\<rparr>"

definition throwing_world :: collaborators where
  "throwing_world =
     sample_world\<lparr>build_website := (\<lambda>d fs. Inl (JsError ''Error'' None ''Rendering failed''))\<rparr>"

text \<open>
  The environment layer in the words of the specification: a variable that is set to a
  non-empty string overwrites one field of the defaults; a boolean variable gives true
  for \<open>true\<close>, \<open>1\<close>, \<open>yes\<close> and false for \<open>false\<close>, \<open>0\<close>, \<open>no\<close>, trimmed and without regard
  to case, and keeps the earlier value otherwise; the meta tags are replaced when the
  variable parses as an array, and the exclude patterns by the non-empty trimmed
  pieces of the comma-separated list.
\<close>

definition string_variable :: "env \<Rightarrow> string \<Rightarrow> string option" where
  "string_variable e x = (case e x of None \<Rightarrow> None | Some v \<Rightarrow> if v = [] then None else Some v)"

definition boolean_variable :: "env \<Rightarrow> string \<Rightarrow> bool \<Rightarrow> bool" where
  "boolean_variable e x earlier =
     (case e x of
        None \<Rightarrow> earlier
      | Some v \<Rightarrow>
          if toLowerCase (trim v) \<in> {''true'', ''1'', ''yes''} then True
          else if toLowerCase (trim v) \<in> {''false'', ''0'', ''no''} then False
          else earlier)"

definition environment_layer :: "(string \<Rightarrow> js_error + MetaTag list option) \<Rightarrow> env \<Rightarrow> WebConfig" where
  "environment_layer parseJSON e =
     \<lparr> version = version DEFAULT_WEB_CONFIG,
       site =
         \<lparr> site_name = (case string_variable e ''OBSIDIAN_SITE_NAME'' of
                          Some v \<Rightarrow> v | None \<Rightarrow> site_name (site DEFAULT_WEB_CONFIG)),
           site_description = (case string_variable e ''OBSIDIAN_SITE_DESCRIPTION'' of
                                 Some v \<Rightarrow> v | None \<Rightarrow> site_description (site DEFAULT_WEB_CONFIG)),
           site_url = (case string_variable e ''OBSIDIAN_SITE_URL'' of
                         Some v \<Rightarrow> v | None \<Rightarrow> site_url (site DEFAULT_WEB_CONFIG)),
           site_favicon = (case string_variable e ''OBSIDIAN_SITE_FAVICON'' of
                             Some v \<Rightarrow> Some v | None \<Rightarrow> site_favicon (site DEFAULT_WEB_CONFIG)) \<rparr>,
       features =
         \<lparr> search = boolean_variable e ''OBSIDIAN_FEATURE_SEARCH'' (search (features DEFAULT_WEB_CONFIG)),
           graphView = boolean_variable e ''OBSIDIAN_FEATURE_GRAPH_VIEW'' (graphView (features DEFAULT_WEB_CONFIG)),
           navigation = boolean_variable e ''OBSIDIAN_FEATURE_NAVIGATION'' (navigation (features DEFAULT_WEB_CONFIG)),
           themeToggle = boolean_variable e ''OBSIDIAN_FEATURE_THEME_TOGGLE'' (themeToggle (features DEFAULT_WEB_CONFIG)),
           backlinks = boolean_variable e ''OBSIDIAN_FEATURE_BACKLINKS'' (backlinks (features DEFAULT_WEB_CONFIG)),
           tags = boolean_variable e ''OBSIDIAN_FEATURE_TAGS'' (tags (features DEFAULT_WEB_CONFIG)),
           outline = boolean_variable e ''OBSIDIAN_FEATURE_OUTLINE'' (outline (features DEFAULT_WEB_CONFIG)),
           sidebar = boolean_variable e ''OBSIDIAN_FEATURE_SIDEBAR'' (sidebar (features DEFAULT_WEB_CONFIG)) \<rparr>,
       seo =
         \<lparr> googleAnalyticsId = (case string_variable e ''OBSIDIAN_GOOGLE_ANALYTICS_ID'' of
                                  Some v \<Rightarrow> Some v | None \<Rightarrow> googleAnalyticsId (seo DEFAULT_WEB_CONFIG)),
           customMetaTags = (case string_variable e ''OBSIDIAN_CUSTOM_META_TAGS'' of
                               None \<Rightarrow> customMetaTags (seo DEFAULT_WEB_CONFIG)
                             | Some v \<Rightarrow>
                                 (case parseJSON v of
                                    Inr (Some metaTags) \<Rightarrow> Some metaTags
                                  | Inr None \<Rightarrow> customMetaTags (seo DEFAULT_WEB_CONFIG)
                                  | Inl err \<Rightarrow> customMetaTags (seo DEFAULT_WEB_CONFIG))),
           generateSitemap = boolean_variable e ''OBSIDIAN_GENERATE_SITEMAP'' (generateSitemap (seo DEFAULT_WEB_CONFIG)),
           generateRobotsTxt = boolean_variable e ''OBSIDIAN_GENERATE_ROBOTS_TXT'' (generateRobotsTxt (seo DEFAULT_WEB_CONFIG)) \<rparr>,
       advanced =
         \<lparr> customCSS = (case string_variable e ''OBSIDIAN_CUSTOM_CSS'' of
                          Some v \<Rightarrow> Some v | None \<Rightarrow> customCSS (advanced DEFAULT_WEB_CONFIG)),
           excludePatterns = (case string_variable e ''OBSIDIAN_EXCLUDE_PATTERNS'' of
                                None \<Rightarrow> excludePatterns (advanced DEFAULT_WEB_CONFIG)
                              | Some v \<Rightarrow> filter (\<lambda>pattern. pattern \<noteq> []) (map trim (split_comma v))),
           imageOptimization = boolean_variable e ''OBSIDIAN_IMAGE_OPTIMIZATION'' (imageOptimization (advanced DEFAULT_WEB_CONFIG)),
           generateResponsiveImages = boolean_variable e ''OBSIDIAN_RESPONSIVE_IMAGES'' (generateResponsiveImages (advanced DEFAULT_WEB_CONFIG)),
           slugifyPaths = boolean_variable e ''OBSIDIAN_SLUGIFY_PATHS'' (slugifyPaths (advanced DEFAULT_WEB_CONFIG)),
           offlineResources = boolean_variable e ''OBSIDIAN_OFFLINE_RESOURCES'' (offlineResources (advanced DEFAULT_WEB_CONFIG)) \<rparr> \<rparr>"

text \<open>Environments for the examples.\<close>

definition log_level_env :: "string \<Rightarrow> env" where
  "log_level_env v = map_of [(''LOG_LEVEL'', v)]"

definition site_env :: env where
  "site_env =
     map_of [(''OBSIDIAN_SITE_NAME'', ''Field Notes''),
             (''OBSIDIAN_SITE_URL'', []),
             (''OBSIDIAN_SITE_FAVICON'', ''favicon.ico''),
             (''OBSIDIAN_FEATURE_SEARCH'', '' No ''),
             (''OBSIDIAN_OFFLINE_RESOURCES'', ''YES''),
             (''OBSIDIAN_EXCLUDE_PATTERNS'', ''Private/**, ,Inbox/**'')]"


section \<open>Validation of the configuration\<close>

lemma all_dropWhile: "(\<forall>x\<in>set (dropWhile P s). P x) \<longleftrightarrow> (\<forall>x\<in>set s. P x)"
  by (induction s) auto

lemma trim_empty_iff: "trim s = [] \<longleftrightarrow> (\<forall>c \<in> set s. is_ws c)"
  unfolding trim_def by (simp add: all_dropWhile)

lemma nonblank_trim: "nonblank s \<longleftrightarrow> \<not> (s = [] \<or> trim s = [])"
  unfolding nonblank_def trim_empty_iff by auto

text \<open>
  C3, as amended. For every configuration \<open>C\<close> and every behaviour of the URL parser,
  \<open>validateWebConfig\<close> returns without throwing, and the list it returns is empty if and
  only if the site name, description and URL each have a character that is not white
  space, the URL parser accepts the URL, and the analytics id is absent, or the empty
  string, or matches one of the three formats.
\<close>

theorem validateWebConfig_empty_iff:
  "\<exists>errs. validateWebConfig newURL C = Inr errs \<and>
     (errs = [] \<longleftrightarrow>
        nonblank (site_name (site C)) \<and> nonblank (site_description (site C)) \<and>
        nonblank (site_url (site C)) \<and> (\<exists>u. newURL (site_url (site C)) = Inr u) \<and>
        (case googleAnalyticsId (seo C) of None \<Rightarrow> True | Some g \<Rightarrow> g = [] \<or> matchesAnalyticsId g))"
proof -
  let ?n = "site_name (site C)" and ?d = "site_description (site C)" and ?u = "site_url (site C)"
  define en where "en = (if ?n = [] \<or> trim ?n = [] then [''Site name is required''] else [])"
  define ed where "ed = (if ?d = [] \<or> trim ?d = [] then [''Site description is required''] else [])"
  define eu where "eu = (if ?u = [] \<or> trim ?u = [] then [''Site URL is required'']
          else (case newURL ?u of
                  Inr _ \<Rightarrow> []
                | Inl _ \<Rightarrow> [''Site URL must be a valid URL (e.g., https://example.com)'']))"
  define eg where "eg = (case googleAnalyticsId (seo C) of
            None \<Rightarrow> []
          | Some g \<Rightarrow>
              if g \<noteq> [] \<and> \<not> matchesAnalyticsId g
              then [''Google Analytics ID must be in format G-XXXXXXXXXX, UA-XXXXXXXX-X, or GT-XXXXXXXXXX'']
              else [])"
  have n: "(en = []) = nonblank ?n"
    unfolding en_def by (simp add: nonblank_trim)
  have d: "(ed = []) = nonblank ?d"
    unfolding ed_def by (simp add: nonblank_trim)
  have u: "(eu = []) = (nonblank ?u \<and> (\<exists>u. newURL ?u = Inr u))"
    unfolding eu_def by (cases "newURL ?u") (simp_all add: nonblank_trim)
  have g: "(eg = []) = (case googleAnalyticsId (seo C) of None \<Rightarrow> True | Some g \<Rightarrow> g = [] \<or> matchesAnalyticsId g)"
    unfolding eg_def by (cases "googleAnalyticsId (seo C)") simp_all
  have r: "validateWebConfig newURL C = Inr (en @ ed @ eu @ eg)"
    unfolding validateWebConfig_def en_def ed_def eu_def eg_def by (rule refl)
  have e: "(en @ ed @ eu @ eg = []) \<longleftrightarrow>
        nonblank ?n \<and> nonblank ?d \<and> nonblank ?u \<and> (\<exists>u. newURL ?u = Inr u) \<and>
        (case googleAnalyticsId (seo C) of None \<Rightarrow> True | Some g \<Rightarrow> g = [] \<or> matchesAnalyticsId g)"
    using n d u g by simp
  show ?thesis
    unfolding r by (intro exI[of _ "en @ ed @ eu @ eg"] conjI refl e)
qed

text \<open>The theorem at the default configuration: it validates without a violation.\<close>

theorem validateWebConfig_empty_iff_witness:
  "validateWebConfig sample_newURL DEFAULT_WEB_CONFIG = Inr []"
proof -
  have n: "nonblank (site_name (site DEFAULT_WEB_CONFIG))"
    by (simp add: nonblank_def DEFAULT_WEB_CONFIG_def is_ws_def)
  have d: "nonblank (site_description (site DEFAULT_WEB_CONFIG))"
    by (simp add: nonblank_def DEFAULT_WEB_CONFIG_def is_ws_def)
  have u: "nonblank (site_url (site DEFAULT_WEB_CONFIG))"
    by (simp add: nonblank_def DEFAULT_WEB_CONFIG_def is_ws_def)
  have p: "\<exists>u. sample_newURL (site_url (site DEFAULT_WEB_CONFIG)) = Inr u"
    by (simp add: sample_newURL_def DEFAULT_WEB_CONFIG_def)
  have g: "googleAnalyticsId (seo DEFAULT_WEB_CONFIG) = None"
    by (simp add: DEFAULT_WEB_CONFIG_def)
  from validateWebConfig_empty_iff [of sample_newURL DEFAULT_WEB_CONFIG] n d u p g
  show ?thesis by auto
qed

text \<open>
  C3, as stated, fails. The configuration whose site name is a single space has a
  non-empty name, description and URL, a URL the parser accepts and no analytics id,
  and \<open>validateWebConfig\<close> reports a violation for it.
\<close>

theorem validateWebConfig_blank_name_counterexample:
  "site_name (site config_blank_name) \<noteq> [] \<and>
   site_description (site config_blank_name) \<noteq> [] \<and>
   site_url (site config_blank_name) \<noteq> [] \<and>
   sample_newURL (site_url (site config_blank_name)) = Inr ''https://example.com'' \<and>
   googleAnalyticsId (seo config_blank_name) = None \<and>
   validateWebConfig sample_newURL config_blank_name = Inr [''Site name is required'']"
  by (simp add: config_blank_name_def DEFAULT_WEB_CONFIG_def sample_newURL_def
      validateWebConfig_def trim_def is_ws_def)

text \<open>
  In the other direction, an analytics id that is present as the empty string matches
  none of the formats and is not reported.
\<close>

lemma validateWebConfig_empty_analytics:
  "googleAnalyticsId (seo config_empty_analytics) = Some [] \<and> \<not> matchesAnalyticsId [] \<and>
   validateWebConfig sample_newURL config_empty_analytics = Inr []"
  by (simp add: config_empty_analytics_def DEFAULT_WEB_CONFIG_def sample_newURL_def
      validateWebConfig_def trim_def is_ws_def matchesAnalyticsId_def startsWith_def)

section \<open>Validation of the vault\<close>

lemma errors_push_warning [simp]: "errors (push_warning c p r) = errors r"
  by (simp add: push_warning_def)

lemma errors_push_error [simp]:
  "errors (push_error c p s r) = errors r @ [\<lparr> e_code = c, e_path = p, e_severity = s \<rparr>]"
  by (simp add: push_error_def)

lemma errors_checkForLargeFiles [simp]: "errors (checkForLargeFiles vault r) = errors r"
  by (simp add: checkForLargeFiles_def Let_def)

lemma errors_validateContent [simp]: "errors (validateContent vault r) = errors r"
  by (simp add: validateContent_def Let_def)

lemma errors_validatePerformance [simp]: "errors (validatePerformance vault r) = errors r"
  by (simp add: validatePerformance_def Let_def)

lemma child_not_dir [simp]: "\<not> isDirectory d \<Longrightarrow> child d name = Missing"
  by (cases d) (simp_all add: child_def)

lemma validatePluginConfig_no_config [simp]:
  "\<not> isDirectory (child vault ''.obsidian'') \<Longrightarrow> validatePluginConfig vault r = r"
  by (simp add: validatePluginConfig_def existsSync_def)

lemma validateObsidianConfig_not_dir [simp]:
  "\<not> isDirectory (child vault ''.obsidian'') \<Longrightarrow> errors (validateObsidianConfig vault r) = errors r"
  by (simp add: validateObsidianConfig_def existsSync_def Let_def)

lemmas validator_defs =
  validateVault_def run_checks_def Let_def validateBasicStructure_def validateObsidianConfig_def
  validatePluginConfig_def validateContent_def validatePerformance_def checkForLargeFiles_def
  validateJsonFile_def push_error_def push_warning_def child_def existsSync_def
  hasFilesWithExtension_def countFilesInDirectory_def startsWith_def endsWith_def

text \<open>
  C1. In the result of \<open>validateVault\<close>, \<open>isValid\<close> is false if and only if the list of
  errors has an entry of severity error. The warnings have no part in it: two results
  with the same list of errors have the same \<open>isValid\<close>, whatever their warnings and
  suggestions are.
\<close>

theorem validateVault_isValid_iff:
  "(\<not> isValid (validateVault vault) \<longleftrightarrow>
      (\<exists>e \<in> set (errors (validateVault vault)). e_severity e = SeverityError)) \<and>
   (errors (validateVault vault) = errors (validateVault vault') \<longrightarrow>
      isValid (validateVault vault) = isValid (validateVault vault'))"
proof -
  have a: "\<And>v. isValid (validateVault v) \<longleftrightarrow>
             \<not> (\<exists>e \<in> set (errors (validateVault v)). e_severity e = SeverityError)"
    by (simp add: validateVault_def Let_def filter_empty_conv)
  show ?thesis
  proof (intro conjI impI)
    show "\<not> isValid (validateVault vault) \<longleftrightarrow>
      (\<exists>e \<in> set (errors (validateVault vault)). e_severity e = SeverityError)"
      using a [of vault] by simp
  next
    assume "errors (validateVault vault) = errors (validateVault vault')"
    then show "isValid (validateVault vault) = isValid (validateVault vault')"
      using a [of vault] a [of vault'] by simp
  qed
qed

text \<open>
  The theorem at two vaults without the configuration directory, one of which has no
  markdown file: the errors are the same, the warnings differ, and both are invalid.
  A vault with warnings only is valid.
\<close>

theorem validateVault_isValid_iff_witness:
  "errors (validateVault vault_without_config) = errors (validateVault vault_empty) \<and>
   warnings (validateVault vault_without_config) \<noteq> warnings (validateVault vault_empty) \<and>
   \<not> isValid (validateVault vault_without_config) \<and> \<not> isValid (validateVault vault_empty)"
proof -
  have e: "errors (validateVault vault_without_config) = errors (validateVault vault_empty)"
    by (simp add: vault_without_config_def vault_empty_def validator_defs)
  have w: "warnings (validateVault vault_without_config) \<noteq> warnings (validateVault vault_empty)"
    by (simp add: vault_without_config_def vault_empty_def validator_defs)
  have x: "\<exists>e \<in> set (errors (validateVault vault_empty)). e_severity e = SeverityError"
    by (simp add: vault_empty_def validator_defs)
  note t = validateVault_isValid_iff [of vault_empty vault_without_config]
  have i: "\<not> isValid (validateVault vault_empty)"
    using t [THEN conjunct1] x by simp
  have j: "isValid (validateVault vault_empty) = isValid (validateVault vault_without_config)"
    using t [THEN conjunct2] e by simp
  show ?thesis using e w i j by simp
qed

lemma validateVault_warnings_only:
  "warnings (validateVault vault_with_warnings) \<noteq> [] \<and> isValid (validateVault vault_with_warnings)"
  by (simp add: vault_with_warnings_def validator_defs)

text \<open>
  C2, as amended. For every vault path that is a directory in which nothing exists
  under the name \<open>.obsidian\<close>, \<open>validateVault\<close> returns \<open>isValid\<close> false and exactly one
  error, of code \<open>OBSIDIAN_CONFIG_MISSING\<close>, whatever else the directory holds. When
  \<open>.obsidian\<close> exists and is not a directory, the result is invalid as well and its one
  error has the code \<open>OBSIDIAN_CONFIG_NOT_DIRECTORY\<close>.
\<close>

theorem validateVault_config_missing:
  assumes "isDirectory vault" and "\<not> isDirectory (child vault ''.obsidian'')"
  shows "\<not> isValid (validateVault vault) \<and>
         errors (validateVault vault) =
           [\<lparr> e_code = (if existsSync (child vault ''.obsidian'')
                         then ''OBSIDIAN_CONFIG_NOT_DIRECTORY'' else ''OBSIDIAN_CONFIG_MISSING''),
               e_path = Some [''.obsidian''], e_severity = SeverityError \<rparr>]"
proof -
  have v: "vault \<noteq> Missing" using assms(1) by auto
  have "errors (run_checks vault) =
          [\<lparr> e_code = (if existsSync (child vault ''.obsidian'')
                        then ''OBSIDIAN_CONFIG_NOT_DIRECTORY'' else ''OBSIDIAN_CONFIG_MISSING''),
              e_path = Some [''.obsidian''], e_severity = SeverityError \<rparr>]"
    using assms v by (simp add: run_checks_def Let_def validateBasicStructure_def existsSync_def)
  then show ?thesis by (simp add: validateVault_def Let_def)
qed

text \<open>
  The theorem at a vault with a markdown file, a large attachment and a dangling link,
  and no \<open>.obsidian\<close>: one error, the missing configuration directory.
\<close>

theorem validateVault_config_missing_witness:
  "isDirectory vault_without_config \<and> \<not> existsSync (child vault_without_config ''.obsidian'') \<and>
   \<not> isValid (validateVault vault_without_config) \<and>
   map e_code (errors (validateVault vault_without_config)) = [''OBSIDIAN_CONFIG_MISSING''] \<and>
   map w_code (warnings (validateVault vault_without_config)) = [''LARGE_FILES_DETECTED'']"
proof -
  have d: "isDirectory vault_without_config"
    by (simp add: vault_without_config_def)
  have c: "child vault_without_config ''.obsidian'' = Missing"
    by (simp add: vault_without_config_def child_def)
  have w: "map w_code (warnings (validateVault vault_without_config)) = [''LARGE_FILES_DETECTED'']"
    by (simp add: vault_without_config_def validator_defs)
  from validateVault_config_missing [of vault_without_config] d c w
  show ?thesis by (simp add: existsSync_def)
qed

text \<open>
  C2, as stated, fails. A vault directory in which \<open>.obsidian\<close> is a regular file has no
  \<open>.obsidian\<close> subdirectory, and the one error of its result is not
  \<open>OBSIDIAN_CONFIG_MISSING\<close>.
\<close>

theorem validateVault_config_file_counterexample:
  "isDirectory vault_config_is_file \<and>
   \<not> isDirectory (child vault_config_is_file ''.obsidian'') \<and>
   map e_code (errors (validateVault vault_config_is_file)) = [''OBSIDIAN_CONFIG_NOT_DIRECTORY'']"
  by (simp add: vault_config_is_file_def validator_defs)

section \<open>Boolean environment variables\<close>

lemma is_ws_lower_char: "is_ws (lower_char c) = is_ws c"
  by (auto simp add: is_ws_def lower_char_def split: option.splits if_splits)

lemma dropWhile_ws_lower:
  "dropWhile is_ws (map lower_char s) = map lower_char (dropWhile is_ws s)"
  by (induction s) (auto simp: is_ws_lower_char)

text \<open>The source lowers the case and then trims; trimming first gives the same string.\<close>

lemma trim_toLowerCase: "trim (toLowerCase s) = toLowerCase (trim s)"
  by (simp add: trim_def toLowerCase_def dropWhile_ws_lower rev_map)

lemma parseBooleanEnv_cases:
  "parseBooleanEnv e x d =
     (case e x of
        None \<Rightarrow> (d, [])
      | Some v \<Rightarrow>
          if toLowerCase (trim v) \<in> {''true'', ''1'', ''yes''} then (True, [])
          else if toLowerCase (trim v) \<in> {''false'', ''0'', ''no''} then (False, [])
          else (d, [invalid_boolean_warning x v d]))"
  by (simp add: parseBooleanEnv_def Let_def trim_toLowerCase split: option.splits)

lemma set_string_other:
  "(\<forall>v c. get (put v c) = get c) \<Longrightarrow> get (fst (set_string e x put st)) = get (fst st)"
  by (simp add: set_string_def)

lemma set_boolean_other:
  "(\<forall>b c. get (put b c) = get c) \<Longrightarrow> get (fst (set_boolean e x g put st)) = get (fst st)"
  by (simp add: set_boolean_def)

lemma set_boolean_own:
  "(\<forall>b c. get (put b c) = b) \<Longrightarrow>
     get (fst (set_boolean e x g put st)) = fst (parseBooleanEnv e x (g (fst st)))"
  by (simp add: set_boolean_def)

lemma set_meta_tags_other:
  "(\<forall>t c. get (c\<lparr>seo := (seo c)\<lparr>customMetaTags := t\<rparr>\<rparr>) = get c) \<Longrightarrow>
     get (fst (set_meta_tags pj e st)) = get (fst st)"
  by (simp add: set_meta_tags_def split: sum.splits option.splits)

lemma set_exclude_patterns_other:
  "(\<forall>t c. get (c\<lparr>advanced := (advanced c)\<lparr>excludePatterns := t\<rparr>\<rparr>) = get c) \<Longrightarrow>
     get (fst (set_exclude_patterns e st)) = get (fst st)"
  by (simp add: set_exclude_patterns_def)

lemmas setters_other =
  set_string_other set_boolean_other set_meta_tags_other set_exclude_patterns_other

lemmas setters = setters_other set_boolean_own

lemmas boolean_setters =
  setters [where get = "\<lambda>c. search (features c)"]
  setters [where get = "\<lambda>c. graphView (features c)"]
  setters [where get = "\<lambda>c. navigation (features c)"]
  setters [where get = "\<lambda>c. themeToggle (features c)"]
  setters [where get = "\<lambda>c. backlinks (features c)"]
  setters [where get = "\<lambda>c. tags (features c)"]
  setters [where get = "\<lambda>c. outline (features c)"]
  setters [where get = "\<lambda>c. sidebar (features c)"]
  setters [where get = "\<lambda>c. generateSitemap (seo c)"]
  setters [where get = "\<lambda>c. generateRobotsTxt (seo c)"]
  setters [where get = "\<lambda>c. imageOptimization (advanced c)"]
  setters [where get = "\<lambda>c. generateResponsiveImages (advanced c)"]
  setters [where get = "\<lambda>c. slugifyPaths (advanced c)"]
  setters [where get = "\<lambda>c. offlineResources (advanced c)"]

lemma snd_set_string: "snd (set_string e x put st) = snd st"
  by (simp add: set_string_def)

lemma snd_set_boolean:
  "snd (set_boolean e x g put st) = snd st @ snd (parseBooleanEnv e x (g (fst st)))"
  by (simp add: set_boolean_def)

lemma snd_set_exclude_patterns: "snd (set_exclude_patterns e st) = snd st"
  by (simp add: set_exclude_patterns_def)

lemma snd_set_meta_tags: "snd (set_meta_tags pj e st) = snd st @ meta_tags_warning pj e"
  by (simp add: set_meta_tags_def meta_tags_warning_def split: sum.splits option.splits)

text \<open>The console lines of the loader, in the order the statements write them.\<close>

lemma console_loadFromEnvironment:
  "snd (loadFromEnvironment pj e) =
     snd (parseBooleanEnv e ''OBSIDIAN_FEATURE_SEARCH'' True)
   @ snd (parseBooleanEnv e ''OBSIDIAN_FEATURE_GRAPH_VIEW'' True)
   @ snd (parseBooleanEnv e ''OBSIDIAN_FEATURE_NAVIGATION'' True)
   @ snd (parseBooleanEnv e ''OBSIDIAN_FEATURE_THEME_TOGGLE'' True)
   @ snd (parseBooleanEnv e ''OBSIDIAN_FEATURE_BACKLINKS'' True)
   @ snd (parseBooleanEnv e ''OBSIDIAN_FEATURE_TAGS'' True)
   @ snd (parseBooleanEnv e ''OBSIDIAN_FEATURE_OUTLINE'' True)
   @ snd (parseBooleanEnv e ''OBSIDIAN_FEATURE_SIDEBAR'' True)
   @ snd (parseBooleanEnv e ''OBSIDIAN_GENERATE_SITEMAP'' True)
   @ snd (parseBooleanEnv e ''OBSIDIAN_GENERATE_ROBOTS_TXT'' True)
   @ meta_tags_warning pj e
   @ snd (parseBooleanEnv e ''OBSIDIAN_IMAGE_OPTIMIZATION'' True)
   @ snd (parseBooleanEnv e ''OBSIDIAN_RESPONSIVE_IMAGES'' True)
   @ snd (parseBooleanEnv e ''OBSIDIAN_SLUGIFY_PATHS'' True)
   @ snd (parseBooleanEnv e ''OBSIDIAN_OFFLINE_RESOURCES'' False)"
  unfolding loadFromEnvironment_def Let_def
  by (simp add: snd_set_string snd_set_boolean snd_set_exclude_patterns snd_set_meta_tags
      boolean_setters DEFAULT_WEB_CONFIG_def)

lemma fields_loadFromEnvironment:
  "search (features (fst (loadFromEnvironment pj e))) =
     fst (parseBooleanEnv e ''OBSIDIAN_FEATURE_SEARCH'' (search (features DEFAULT_WEB_CONFIG)))"
  "graphView (features (fst (loadFromEnvironment pj e))) =
     fst (parseBooleanEnv e ''OBSIDIAN_FEATURE_GRAPH_VIEW'' (graphView (features DEFAULT_WEB_CONFIG)))"
  "navigation (features (fst (loadFromEnvironment pj e))) =
     fst (parseBooleanEnv e ''OBSIDIAN_FEATURE_NAVIGATION'' (navigation (features DEFAULT_WEB_CONFIG)))"
  "themeToggle (features (fst (loadFromEnvironment pj e))) =
     fst (parseBooleanEnv e ''OBSIDIAN_FEATURE_THEME_TOGGLE'' (themeToggle (features DEFAULT_WEB_CONFIG)))"
  "backlinks (features (fst (loadFromEnvironment pj e))) =
     fst (parseBooleanEnv e ''OBSIDIAN_FEATURE_BACKLINKS'' (backlinks (features DEFAULT_WEB_CONFIG)))"
  "tags (features (fst (loadFromEnvironment pj e))) =
     fst (parseBooleanEnv e ''OBSIDIAN_FEATURE_TAGS'' (tags (features DEFAULT_WEB_CONFIG)))"
  "outline (features (fst (loadFromEnvironment pj e))) =
     fst (parseBooleanEnv e ''OBSIDIAN_FEATURE_OUTLINE'' (outline (features DEFAULT_WEB_CONFIG)))"
  "sidebar (features (fst (loadFromEnvironment pj e))) =
     fst (parseBooleanEnv e ''OBSIDIAN_FEATURE_SIDEBAR'' (sidebar (features DEFAULT_WEB_CONFIG)))"
  "generateSitemap (seo (fst (loadFromEnvironment pj e))) =
     fst (parseBooleanEnv e ''OBSIDIAN_GENERATE_SITEMAP'' (generateSitemap (seo DEFAULT_WEB_CONFIG)))"
  "generateRobotsTxt (seo (fst (loadFromEnvironment pj e))) =
     fst (parseBooleanEnv e ''OBSIDIAN_GENERATE_ROBOTS_TXT'' (generateRobotsTxt (seo DEFAULT_WEB_CONFIG)))"
  "imageOptimization (advanced (fst (loadFromEnvironment pj e))) =
     fst (parseBooleanEnv e ''OBSIDIAN_IMAGE_OPTIMIZATION'' (imageOptimization (advanced DEFAULT_WEB_CONFIG)))"
  "generateResponsiveImages (advanced (fst (loadFromEnvironment pj e))) =
     fst (parseBooleanEnv e ''OBSIDIAN_RESPONSIVE_IMAGES'' (generateResponsiveImages (advanced DEFAULT_WEB_CONFIG)))"
  "slugifyPaths (advanced (fst (loadFromEnvironment pj e))) =
     fst (parseBooleanEnv e ''OBSIDIAN_SLUGIFY_PATHS'' (slugifyPaths (advanced DEFAULT_WEB_CONFIG)))"
  "offlineResources (advanced (fst (loadFromEnvironment pj e))) =
     fst (parseBooleanEnv e ''OBSIDIAN_OFFLINE_RESOURCES'' (offlineResources (advanced DEFAULT_WEB_CONFIG)))"
  unfolding loadFromEnvironment_def Let_def
  by (simp_all add: boolean_setters)

lemma warned_loadFromEnvironment:
  "set (snd (parseBooleanEnv e ''OBSIDIAN_FEATURE_SEARCH'' (search (features DEFAULT_WEB_CONFIG))))
     \<subseteq> set (snd (loadFromEnvironment pj e))"
  "set (snd (parseBooleanEnv e ''OBSIDIAN_FEATURE_GRAPH_VIEW'' (graphView (features DEFAULT_WEB_CONFIG))))
     \<subseteq> set (snd (loadFromEnvironment pj e))"
  "set (snd (parseBooleanEnv e ''OBSIDIAN_FEATURE_NAVIGATION'' (navigation (features DEFAULT_WEB_CONFIG))))
     \<subseteq> set (snd (loadFromEnvironment pj e))"
  "set (snd (parseBooleanEnv e ''OBSIDIAN_FEATURE_THEME_TOGGLE'' (themeToggle (features DEFAULT_WEB_CONFIG))))
     \<subseteq> set (snd (loadFromEnvironment pj e))"
  "set (snd (parseBooleanEnv e ''OBSIDIAN_FEATURE_BACKLINKS'' (backlinks (features DEFAULT_WEB_CONFIG))))
     \<subseteq> set (snd (loadFromEnvironment pj e))"
  "set (snd (parseBooleanEnv e ''OBSIDIAN_FEATURE_TAGS'' (tags (features DEFAULT_WEB_CONFIG))))
     \<subseteq> set (snd (loadFromEnvironment pj e))"
  "set (snd (parseBooleanEnv e ''OBSIDIAN_FEATURE_OUTLINE'' (outline (features DEFAULT_WEB_CONFIG))))
     \<subseteq> set (snd (loadFromEnvironment pj e))"
  "set (snd (parseBooleanEnv e ''OBSIDIAN_FEATURE_SIDEBAR'' (sidebar (features DEFAULT_WEB_CONFIG))))
     \<subseteq> set (snd (loadFromEnvironment pj e))"
  "set (snd (parseBooleanEnv e ''OBSIDIAN_GENERATE_SITEMAP'' (generateSitemap (seo DEFAULT_WEB_CONFIG))))
     \<subseteq> set (snd (loadFromEnvironment pj e))"
  "set (snd (parseBooleanEnv e ''OBSIDIAN_GENERATE_ROBOTS_TXT'' (generateRobotsTxt (seo DEFAULT_WEB_CONFIG))))
     \<subseteq> set (snd (loadFromEnvironment pj e))"
  "set (snd (parseBooleanEnv e ''OBSIDIAN_IMAGE_OPTIMIZATION'' (imageOptimization (advanced DEFAULT_WEB_CONFIG))))
     \<subseteq> set (snd (loadFromEnvironment pj e))"
  "set (snd (parseBooleanEnv e ''OBSIDIAN_RESPONSIVE_IMAGES'' (generateResponsiveImages (advanced DEFAULT_WEB_CONFIG))))
     \<subseteq> set (snd (loadFromEnvironment pj e))"
  "set (snd (parseBooleanEnv e ''OBSIDIAN_SLUGIFY_PATHS'' (slugifyPaths (advanced DEFAULT_WEB_CONFIG))))
     \<subseteq> set (snd (loadFromEnvironment pj e))"
  "set (snd (parseBooleanEnv e ''OBSIDIAN_OFFLINE_RESOURCES'' (offlineResources (advanced DEFAULT_WEB_CONFIG))))
     \<subseteq> set (snd (loadFromEnvironment pj e))"
  unfolding console_loadFromEnvironment
  by (auto simp add: DEFAULT_WEB_CONFIG_def)

lemma boolean_variable_row:
  assumes f: "get (fst L) = fst (parseBooleanEnv e x d)"
    and c: "set (snd (parseBooleanEnv e x d)) \<subseteq> set (snd L)"
  shows "case e x of
           None \<Rightarrow> get (fst L) = d
         | Some v \<Rightarrow>
             if toLowerCase (trim v) \<in> {''true'', ''1'', ''yes''} then get (fst L)
             else if toLowerCase (trim v) \<in> {''false'', ''0'', ''no''} then \<not> get (fst L)
             else get (fst L) = d \<and> invalid_boolean_warning x v d \<in> set (snd L)"
proof (cases "e x")
  case None
  then show ?thesis using f by (simp add: parseBooleanEnv_cases)
next
  case (Some v)
  show ?thesis
  proof (cases "toLowerCase (trim v) \<in> {''true'', ''1'', ''yes''}")
    case True
    then show ?thesis using f Some by (simp add: parseBooleanEnv_cases)
  next
    case nt: False
    show ?thesis
    proof (cases "toLowerCase (trim v) \<in> {''false'', ''0'', ''no''}")
      case True
      then show ?thesis using f Some nt by (simp add: parseBooleanEnv_cases)
    next
      case False
      then have "parseBooleanEnv e x d = (d, [invalid_boolean_warning x v d])"
        using Some nt by (simp add: parseBooleanEnv_cases)
      then show ?thesis using f c Some nt False by simp
    qed
  qed
qed

lemmas boolean_variable_rows =
  boolean_variable_row [where get = "\<lambda>c. search (features c)" and d = "search (features DEFAULT_WEB_CONFIG)",
    OF fields_loadFromEnvironment(1) warned_loadFromEnvironment(1)]
  boolean_variable_row [where get = "\<lambda>c. graphView (features c)" and d = "graphView (features DEFAULT_WEB_CONFIG)",
    OF fields_loadFromEnvironment(2) warned_loadFromEnvironment(2)]
  boolean_variable_row [where get = "\<lambda>c. navigation (features c)" and d = "navigation (features DEFAULT_WEB_CONFIG)",
    OF fields_loadFromEnvironment(3) warned_loadFromEnvironment(3)]
  boolean_variable_row [where get = "\<lambda>c. themeToggle (features c)" and d = "themeToggle (features DEFAULT_WEB_CONFIG)",
    OF fields_loadFromEnvironment(4) warned_loadFromEnvironment(4)]
  boolean_variable_row [where get = "\<lambda>c. backlinks (features c)" and d = "backlinks (features DEFAULT_WEB_CONFIG)",
    OF fields_loadFromEnvironment(5) warned_loadFromEnvironment(5)]
  boolean_variable_row [where get = "\<lambda>c. tags (features c)" and d = "tags (features DEFAULT_WEB_CONFIG)",
    OF fields_loadFromEnvironment(6) warned_loadFromEnvironment(6)]
  boolean_variable_row [where get = "\<lambda>c. outline (features c)" and d = "outline (features DEFAULT_WEB_CONFIG)",
    OF fields_loadFromEnvironment(7) warned_loadFromEnvironment(7)]
  boolean_variable_row [where get = "\<lambda>c. sidebar (features c)" and d = "sidebar (features DEFAULT_WEB_CONFIG)",
    OF fields_loadFromEnvironment(8) warned_loadFromEnvironment(8)]
  boolean_variable_row [where get = "\<lambda>c. generateSitemap (seo c)" and d = "generateSitemap (seo DEFAULT_WEB_CONFIG)",
    OF fields_loadFromEnvironment(9) warned_loadFromEnvironment(9)]
  boolean_variable_row [where get = "\<lambda>c. generateRobotsTxt (seo c)" and d = "generateRobotsTxt (seo DEFAULT_WEB_CONFIG)",
    OF fields_loadFromEnvironment(10) warned_loadFromEnvironment(10)]
  boolean_variable_row [where get = "\<lambda>c. imageOptimization (advanced c)" and d = "imageOptimization (advanced DEFAULT_WEB_CONFIG)",
    OF fields_loadFromEnvironment(11) warned_loadFromEnvironment(11)]
  boolean_variable_row [where get = "\<lambda>c. generateResponsiveImages (advanced c)" and d = "generateResponsiveImages (advanced DEFAULT_WEB_CONFIG)",
    OF fields_loadFromEnvironment(12) warned_loadFromEnvironment(12)]
  boolean_variable_row [where get = "\<lambda>c. slugifyPaths (advanced c)" and d = "slugifyPaths (advanced DEFAULT_WEB_CONFIG)",
    OF fields_loadFromEnvironment(13) warned_loadFromEnvironment(13)]
  boolean_variable_row [where get = "\<lambda>c. offlineResources (advanced c)" and d = "offlineResources (advanced DEFAULT_WEB_CONFIG)",
    OF fields_loadFromEnvironment(14) warned_loadFromEnvironment(14)]

text \<open>
  C7. For every boolean variable the loader recognises and every environment, the
  loader returns a configuration in which the field of the variable is: its default
  when the variable is unset; true when the value, trimmed and compared without regard
  to case, is \<open>true\<close>, \<open>1\<close> or \<open>yes\<close>; false when it is \<open>false\<close>, \<open>0\<close> or \<open>no\<close>; and for any
  other value its default again, the value the field had before, with the warning
  about that value among the lines written to the console.
\<close>

theorem boolean_variables_parsed:
  "\<forall>(x, get) \<in> set boolean_variables.
     (case e x of
        None \<Rightarrow> get (fst (loadFromEnvironment parseJSON e)) = get DEFAULT_WEB_CONFIG
      | Some v \<Rightarrow>
          if toLowerCase (trim v) \<in> {''true'', ''1'', ''yes''}
          then get (fst (loadFromEnvironment parseJSON e))
          else if toLowerCase (trim v) \<in> {''false'', ''0'', ''no''}
          then \<not> get (fst (loadFromEnvironment parseJSON e))
          else get (fst (loadFromEnvironment parseJSON e)) = get DEFAULT_WEB_CONFIG \<and>
               invalid_boolean_warning x v (get DEFAULT_WEB_CONFIG)
                 \<in> set (snd (loadFromEnvironment parseJSON e)))"
  unfolding boolean_variables_def
  apply (simp only: list.set ball_simps prod.case simp_thms)
  apply (intro conjI)
  apply (rule boolean_variable_rows)+
  done

text \<open>
  The theorem at an environment that sets the search flag to \<open>No\<close> between spaces, the
  offline flag to \<open>YES\<close> and the tags flag to \<open>maybe\<close>, and leaves the graph view flag
  unset.
\<close>

theorem boolean_variables_parsed_witness:
  "\<not> search (features (fst (loadFromEnvironment sample_parseJSON sample_env))) \<and>
   offlineResources (advanced (fst (loadFromEnvironment sample_parseJSON sample_env))) \<and>
   graphView (features (fst (loadFromEnvironment sample_parseJSON sample_env))) \<and>
   tags (features (fst (loadFromEnvironment sample_parseJSON sample_env))) \<and>
   invalid_boolean_warning ''OBSIDIAN_FEATURE_TAGS'' ''maybe'' True
     \<in> set (snd (loadFromEnvironment sample_parseJSON sample_env))"
  using boolean_variables_parsed [where e = sample_env and parseJSON = sample_parseJSON]
  unfolding boolean_variables_def
  by (simp add: sample_env_def DEFAULT_WEB_CONFIG_def toLowerCase_def trim_def lower_char_def
      is_ws_def)

section \<open>The logger's minimum level\<close>

lemma logLevel_log [simp]: "logLevel (log lg lv msg ctx err prog) = logLevel lg"
  by (simp add: log_def outputLog_def Let_def)

lemma log_below_threshold:
  "level_num lv < level_num (logLevel lg) \<Longrightarrow> log lg lv msg ctx err prog = lg"
  by (simp add: log_def)

lemma logLevel_new_DockerLogger:
  "logLevel (new_DockerLogger e) =
     (case e ''LOG_LEVEL'' of
        None \<Rightarrow> INFO
      | Some s \<Rightarrow>
          if toUpperCase s = ''DEBUG'' then DEBUG
          else if toUpperCase s = ''WARN'' then WARN
          else if toUpperCase s = ''ERROR'' then ERROR
          else INFO)"
proof (cases "e ''LOG_LEVEL''")
  case None
  then show ?thesis
    by (simp add: new_DockerLogger_def truthy_def parseLogLevel_def toUpperCase_def upper_char_def)
next
  case (Some s)
  show ?thesis
  proof (cases "s = []")
    case True
    then show ?thesis using Some
      by (simp add: new_DockerLogger_def truthy_def parseLogLevel_def toUpperCase_def upper_char_def)
  next
    case False
    then show ?thesis using Some
      by (simp add: new_DockerLogger_def truthy_def parseLogLevel_def)
  qed
qed

text \<open>
  C9. The level of a new logger is read from \<open>LOG_LEVEL\<close>: it is \<open>INFO\<close> when the
  variable is unset, \<open>DEBUG\<close>, \<open>WARN\<close> or \<open>ERROR\<close> when the value is that name in any
  mixture of upper and lower case, and \<open>INFO\<close> for every other value. Once an instance
  exists, \<open>getInstance\<close> returns it whatever the environment is then, and logging does
  not change its level. The levels are ordered \<open>DEBUG < INFO < WARN < ERROR\<close>. A call
  of \<open>log\<close>, and so of \<open>debug\<close>, \<open>info\<close> and \<open>warn\<close>, with a level strictly below the level
  of the logger returns the state it was given: no entry is added, nothing is written
  to the console, and the summary report, with its error and warning entries, is the
  same.
\<close>

theorem log_below_minimum_level:
  "logLevel (new_DockerLogger e) =
     (case e ''LOG_LEVEL'' of
        None \<Rightarrow> INFO
      | Some s \<Rightarrow>
          if toUpperCase s = ''DEBUG'' then DEBUG
          else if toUpperCase s = ''WARN'' then WARN
          else if toUpperCase s = ''ERROR'' then ERROR
          else INFO) \<and>
   logLevel (new_DockerLogger e) =
     parseLogLevel (case e ''LOG_LEVEL'' of None \<Rightarrow> ''INFO'' | Some s \<Rightarrow> if s = [] then ''INFO'' else s) \<and>
   (e ''LOG_LEVEL'' = None \<longrightarrow> logLevel (new_DockerLogger e) = INFO) \<and>
   getInstance e' (Some lg) = lg \<and>
   getInstance e None = new_DockerLogger e \<and>
   logLevel (log lg lv msg ctx err prog) = logLevel lg \<and>
   level_num DEBUG < level_num INFO \<and> level_num INFO < level_num WARN \<and>
   level_num WARN < level_num ERROR \<and>
   (level_num lv < level_num (logLevel lg) \<longrightarrow>
      log lg lv msg ctx err prog = lg \<and>
      logEntries (log lg lv msg ctx err prog) = logEntries lg \<and>
      console (log lg lv msg ctx err prog) = console lg \<and>
      generateSummaryReport (log lg lv msg ctx err prog) = generateSummaryReport lg) \<and>
   (level_num DEBUG < level_num (logLevel lg) \<longrightarrow> debug lg msg ctx = lg) \<and>
   (level_num INFO < level_num (logLevel lg) \<longrightarrow> info lg msg ctx = lg) \<and>
   (level_num WARN < level_num (logLevel lg) \<longrightarrow> warn lg msg ctx = lg)"
proof -
  note x = logLevel_new_DockerLogger [of e]
  have a: "logLevel (new_DockerLogger e) =
     parseLogLevel (case e ''LOG_LEVEL'' of None \<Rightarrow> ''INFO'' | Some s \<Rightarrow> if s = [] then ''INFO'' else s)"
    by (simp add: new_DockerLogger_def truthy_def split: option.splits)
  have b: "e ''LOG_LEVEL'' = None \<longrightarrow> logLevel (new_DockerLogger e) = INFO"
    by (simp add: logLevel_new_DockerLogger)
  have c: "getInstance e' (Some lg) = lg" "getInstance e None = new_DockerLogger e"
    by (simp_all add: getInstance_def)
  have d: "level_num lv < level_num (logLevel lg) \<longrightarrow>
      log lg lv msg ctx err prog = lg \<and>
      logEntries (log lg lv msg ctx err prog) = logEntries lg \<and>
      console (log lg lv msg ctx err prog) = console lg \<and>
      generateSummaryReport (log lg lv msg ctx err prog) = generateSummaryReport lg"
    by (simp add: log_below_threshold)
  have f: "level_num DEBUG < level_num (logLevel lg) \<longrightarrow> debug lg msg ctx = lg"
    by (simp add: debug_def log_below_threshold)
  have g: "level_num INFO < level_num (logLevel lg) \<longrightarrow> info lg msg ctx = lg"
    by (simp add: info_def log_below_threshold)
  have h: "level_num WARN < level_num (logLevel lg) \<longrightarrow> warn lg msg ctx = lg"
    by (simp add: warn_def log_below_threshold)
  show ?thesis
    by (intro conjI x a b c d f g h logLevel_log) simp_all
qed

text \<open>
  The theorem at the loggers made for six settings of \<open>LOG_LEVEL\<close>. With the level
  \<open>warn\<close> an \<open>info\<close> call leaves the logger as it is and a \<open>warn\<close> call adds an entry;
  with the level \<open>Error\<close> a \<open>warn\<close> call leaves it as it is; with the level \<open>debug\<close> a
  \<open>debug\<close> call adds an entry.
\<close>

theorem log_below_minimum_level_witness:
  "logLevel (new_DockerLogger (\<lambda>x. None)) = INFO \<and>
   logLevel (new_DockerLogger (log_level_env ''debug'')) = DEBUG \<and>
   logLevel (new_DockerLogger (log_level_env ''INFO'')) = INFO \<and>
   logLevel (new_DockerLogger (log_level_env ''warn'')) = WARN \<and>
   logLevel (new_DockerLogger (log_level_env ''Error'')) = ERROR \<and>
   logLevel (new_DockerLogger (log_level_env ''verbose'')) = INFO \<and>
   info (new_DockerLogger (log_level_env ''warn'')) ''Starting Docker export'' None
     = new_DockerLogger (log_level_env ''warn'') \<and>
   warn (new_DockerLogger (log_level_env ''Error'')) ''Config: Site name is required'' None
     = new_DockerLogger (log_level_env ''Error'') \<and>
   length (logEntries (warn (new_DockerLogger (log_level_env ''warn''))
                         ''Config: Site name is required'' None)) = 1 \<and>
   length (logEntries (debug (new_DockerLogger (log_level_env ''debug''))
                         ''Loaded configuration'' None)) = 1"
proof -
  have l0: "logLevel (new_DockerLogger (\<lambda>x. None)) = INFO"
    using log_below_minimum_level [where e = "\<lambda>x. None", THEN conjunct1] by simp
  have l1: "logLevel (new_DockerLogger (log_level_env ''debug'')) = DEBUG"
    using log_below_minimum_level [where e = "log_level_env ''debug''", THEN conjunct1]
    by (simp add: log_level_env_def toUpperCase_def upper_char_def)
  have l2: "logLevel (new_DockerLogger (log_level_env ''INFO'')) = INFO"
    using log_below_minimum_level [where e = "log_level_env ''INFO''", THEN conjunct1]
    by (simp add: log_level_env_def toUpperCase_def upper_char_def)
  have l3: "logLevel (new_DockerLogger (log_level_env ''warn'')) = WARN"
    using log_below_minimum_level [where e = "log_level_env ''warn''", THEN conjunct1]
    by (simp add: log_level_env_def toUpperCase_def upper_char_def)
  have l4: "logLevel (new_DockerLogger (log_level_env ''Error'')) = ERROR"
    using log_below_minimum_level [where e = "log_level_env ''Error''", THEN conjunct1]
    by (simp add: log_level_env_def toUpperCase_def upper_char_def)
  have l5: "logLevel (new_DockerLogger (log_level_env ''verbose'')) = INFO"
    using log_below_minimum_level [where e = "log_level_env ''verbose''", THEN conjunct1]
    by (simp add: log_level_env_def toUpperCase_def upper_char_def)
  have i: "info (new_DockerLogger (log_level_env ''warn'')) ''Starting Docker export'' None
             = new_DockerLogger (log_level_env ''warn'')"
    using log_below_minimum_level [where lg = "new_DockerLogger (log_level_env ''warn'')"
        and msg = "''Starting Docker export''" and ctx = None] l3
    by simp
  have w: "warn (new_DockerLogger (log_level_env ''Error'')) ''Config: Site name is required'' None
             = new_DockerLogger (log_level_env ''Error'')"
    using log_below_minimum_level [where lg = "new_DockerLogger (log_level_env ''Error'')"
        and msg = "''Config: Site name is required''" and ctx = None] l4
    by simp
  have n1: "length (logEntries (warn (new_DockerLogger (log_level_env ''warn''))
                         ''Config: Site name is required'' None)) = 1"
    using l3 by (simp add: warn_def log_def outputLog_def Let_def new_DockerLogger_def)
  have n2: "length (logEntries (debug (new_DockerLogger (log_level_env ''debug''))
                         ''Loaded configuration'' None)) = 1"
    using l1 by (simp add: debug_def log_def outputLog_def Let_def new_DockerLogger_def)
  show ?thesis
    using l0 l1 l2 l3 l4 l5 i w n1 n2 by simp
qed


section \<open>The layers of the configuration\<close>

lemma validateEnvironmentConfig_returns:
  "\<exists>errs. validateEnvironmentConfig newURL config = Inr errs"
  by (simp add: validateEnvironmentConfig_def validateWebConfig_def)

lemma loadConfiguration_config:
  "fst (loadConfiguration newURL pj e ov) =
     Inr (case ov of Some v \<Rightarrow> object_assign (fst (loadFromEnvironment pj e)) v
                   | None \<Rightarrow> fst (loadFromEnvironment pj e))"
proof -
  obtain errs where
    "validateEnvironmentConfig newURL
       (case ov of Some v \<Rightarrow> object_assign (fst (loadFromEnvironment pj e)) v
                 | None \<Rightarrow> fst (loadFromEnvironment pj e)) = Inr errs"
    using validateEnvironmentConfig_returns by blast
  then show ?thesis
    by (simp add: loadConfiguration_def Let_def)
qed

lemma loadFromEnvironment_empty:
  "loadFromEnvironment pj (\<lambda>x. None) = (DEFAULT_WEB_CONFIG, [])"
  by (simp add: loadFromEnvironment_def Let_def set_string_def set_boolean_def set_meta_tags_def
      set_exclude_patterns_def truthy_def parseBooleanEnv_def DEFAULT_WEB_CONFIG_def)

text \<open>What a setter does to the field it sets.\<close>

lemma set_string_own:
  "(\<forall>v c. get (put v c) = f v) \<Longrightarrow>
     get (fst (set_string e x put st)) =
       (case string_variable e x of Some v \<Rightarrow> f v | None \<Rightarrow> get (fst st))"
  by (simp add: set_string_def string_variable_def truthy_def split: option.splits)

lemma set_meta_tags_own:
  "customMetaTags (seo (fst (set_meta_tags pj e st))) =
     (case string_variable e ''OBSIDIAN_CUSTOM_META_TAGS'' of
        None \<Rightarrow> customMetaTags (seo (fst st))
      | Some v \<Rightarrow>
          (case pj v of
             Inr (Some metaTags) \<Rightarrow> Some metaTags
           | Inr None \<Rightarrow> customMetaTags (seo (fst st))
           | Inl err \<Rightarrow> customMetaTags (seo (fst st))))"
  by (simp add: set_meta_tags_def string_variable_def truthy_def split: option.splits sum.splits)

lemma set_exclude_patterns_own:
  "excludePatterns (advanced (fst (set_exclude_patterns e st))) =
     (case string_variable e ''OBSIDIAN_EXCLUDE_PATTERNS'' of
        None \<Rightarrow> excludePatterns (advanced (fst st))
      | Some v \<Rightarrow> filter (\<lambda>pattern. pattern \<noteq> []) (map trim (split_comma v)))"
  by (simp add: set_exclude_patterns_def string_variable_def truthy_def split: option.splits)

lemma fst_parseBooleanEnv: "fst (parseBooleanEnv e x d) = boolean_variable e x d"
  by (simp add: parseBooleanEnv_cases boolean_variable_def split: option.splits)

lemma version_loadFromEnvironment:
  "version (fst (loadFromEnvironment pj e)) = version DEFAULT_WEB_CONFIG"
  unfolding loadFromEnvironment_def Let_def
  by (simp add: setters_other [where get = version])

lemma site_loadFromEnvironment:
  "site_name (site (fst (loadFromEnvironment pj e))) =
     (case string_variable e ''OBSIDIAN_SITE_NAME'' of
        Some v \<Rightarrow> v | None \<Rightarrow> site_name (site DEFAULT_WEB_CONFIG))"
  "site_description (site (fst (loadFromEnvironment pj e))) =
     (case string_variable e ''OBSIDIAN_SITE_DESCRIPTION'' of
        Some v \<Rightarrow> v | None \<Rightarrow> site_description (site DEFAULT_WEB_CONFIG))"
  "site_url (site (fst (loadFromEnvironment pj e))) =
     (case string_variable e ''OBSIDIAN_SITE_URL'' of
        Some v \<Rightarrow> v | None \<Rightarrow> site_url (site DEFAULT_WEB_CONFIG))"
  "site_favicon (site (fst (loadFromEnvironment pj e))) =
     (case string_variable e ''OBSIDIAN_SITE_FAVICON'' of
        Some v \<Rightarrow> Some v | None \<Rightarrow> site_favicon (site DEFAULT_WEB_CONFIG))"
  unfolding loadFromEnvironment_def Let_def
  by (simp add: setters_other [where get = "\<lambda>c. site_name (site c)"]
        set_string_own [where get = "\<lambda>c. site_name (site c)" and f = "\<lambda>v. v"]
        cong: option.case_cong,
      simp add: setters_other [where get = "\<lambda>c. site_description (site c)"]
        set_string_own [where get = "\<lambda>c. site_description (site c)" and f = "\<lambda>v. v"]
        cong: option.case_cong,
      simp add: setters_other [where get = "\<lambda>c. site_url (site c)"]
        set_string_own [where get = "\<lambda>c. site_url (site c)" and f = "\<lambda>v. v"]
        cong: option.case_cong,
      simp add: setters_other [where get = "\<lambda>c. site_favicon (site c)"]
        set_string_own [where get = "\<lambda>c. site_favicon (site c)" and f = Some]
        cong: option.case_cong)

lemma seo_loadFromEnvironment:
  "googleAnalyticsId (seo (fst (loadFromEnvironment pj e))) =
     (case string_variable e ''OBSIDIAN_GOOGLE_ANALYTICS_ID'' of
        Some v \<Rightarrow> Some v | None \<Rightarrow> googleAnalyticsId (seo DEFAULT_WEB_CONFIG))"
  "customMetaTags (seo (fst (loadFromEnvironment pj e))) =
     (case string_variable e ''OBSIDIAN_CUSTOM_META_TAGS'' of
        None \<Rightarrow> customMetaTags (seo DEFAULT_WEB_CONFIG)
      | Some v \<Rightarrow>
          (case pj v of
             Inr (Some metaTags) \<Rightarrow> Some metaTags
           | Inr None \<Rightarrow> customMetaTags (seo DEFAULT_WEB_CONFIG)
           | Inl err \<Rightarrow> customMetaTags (seo DEFAULT_WEB_CONFIG)))"
  unfolding loadFromEnvironment_def Let_def
  by (simp add: setters_other [where get = "\<lambda>c. googleAnalyticsId (seo c)"]
        set_string_own [where get = "\<lambda>c. googleAnalyticsId (seo c)" and f = Some]
        cong: option.case_cong,
      simp add: setters_other [where get = "\<lambda>c. customMetaTags (seo c)"] set_meta_tags_own
        cong: option.case_cong sum.case_cong)

lemma advanced_loadFromEnvironment:
  "customCSS (advanced (fst (loadFromEnvironment pj e))) =
     (case string_variable e ''OBSIDIAN_CUSTOM_CSS'' of
        Some v \<Rightarrow> Some v | None \<Rightarrow> customCSS (advanced DEFAULT_WEB_CONFIG))"
  "excludePatterns (advanced (fst (loadFromEnvironment pj e))) =
     (case string_variable e ''OBSIDIAN_EXCLUDE_PATTERNS'' of
        None \<Rightarrow> excludePatterns (advanced DEFAULT_WEB_CONFIG)
      | Some v \<Rightarrow> filter (\<lambda>pattern. pattern \<noteq> []) (map trim (split_comma v)))"
  unfolding loadFromEnvironment_def Let_def
  by (simp add: setters_other [where get = "\<lambda>c. customCSS (advanced c)"]
        set_string_own [where get = "\<lambda>c. customCSS (advanced c)" and f = Some]
        cong: option.case_cong,
      simp add: setters_other [where get = "\<lambda>c. excludePatterns (advanced c)"]
        set_exclude_patterns_own cong: option.case_cong)

text \<open>The loader computes the environment layer.\<close>

lemma loadFromEnvironment_environment_layer:
  "fst (loadFromEnvironment pj e) = environment_layer pj e"
proof -
  let ?c = "fst (loadFromEnvironment pj e)"
  have s: "site ?c = site (environment_layer pj e)"
    by (rule SiteInfo.equality) (simp_all add: environment_layer_def site_loadFromEnvironment)
  have f: "features ?c = features (environment_layer pj e)"
    by (rule Features.equality)
       (simp_all add: environment_layer_def fields_loadFromEnvironment fst_parseBooleanEnv)
  have o: "seo ?c = seo (environment_layer pj e)"
    by (rule Seo.equality)
       (simp_all add: environment_layer_def seo_loadFromEnvironment fields_loadFromEnvironment
          fst_parseBooleanEnv)
  have a: "advanced ?c = advanced (environment_layer pj e)"
    by (rule Advanced.equality)
       (simp_all add: environment_layer_def advanced_loadFromEnvironment
          fields_loadFromEnvironment fst_parseBooleanEnv)
  have v: "version ?c = version (environment_layer pj e)"
    by (simp add: environment_layer_def version_loadFromEnvironment)
  show ?thesis
    by (rule WebConfig.equality) (simp_all add: s f o a v)
qed

text \<open>
  C4, as amended. The configuration of a run is built from the defaults: with no
  variable set and no override it is the default configuration. The environment
  variables are laid over the defaults field by field, a variable that is set and
  parses winning over the default: the loader returns the environment layer. The
  overrides of the caller are then applied one top-level property at a time: a section
  that the overrides hold replaces the whole section of the earlier layers, and a
  section that they do not hold keeps the value of the environment layer.
\<close>

theorem loadConfiguration_layers:
  "fst (loadConfiguration newURL parseJSON (\<lambda>x. None) None) = Inr DEFAULT_WEB_CONFIG \<and>
   fst (loadFromEnvironment parseJSON e) = environment_layer parseJSON e \<and>
   fst (loadConfiguration newURL parseJSON e None) = Inr (environment_layer parseJSON e) \<and>
   (\<exists>c. fst (loadConfiguration newURL parseJSON e (Some ov)) = Inr c \<and>
      version c = (case o_version ov of Some v \<Rightarrow> v
                   | None \<Rightarrow> version (environment_layer parseJSON e)) \<and>
      site c = (case o_site ov of Some v \<Rightarrow> v
                | None \<Rightarrow> site (environment_layer parseJSON e)) \<and>
      features c = (case o_features ov of Some v \<Rightarrow> v
                    | None \<Rightarrow> features (environment_layer parseJSON e)) \<and>
      seo c = (case o_seo ov of Some v \<Rightarrow> v
               | None \<Rightarrow> seo (environment_layer parseJSON e)) \<and>
      advanced c = (case o_advanced ov of Some v \<Rightarrow> v
                    | None \<Rightarrow> advanced (environment_layer parseJSON e)))"
proof -
  have a: "fst (loadConfiguration newURL parseJSON (\<lambda>x. None) None) = Inr DEFAULT_WEB_CONFIG"
    by (simp add: loadConfiguration_config loadFromEnvironment_empty)
  have b: "fst (loadConfiguration newURL parseJSON e None) = Inr (environment_layer parseJSON e)"
    by (simp add: loadConfiguration_config loadFromEnvironment_environment_layer)
  have c: "\<exists>c. fst (loadConfiguration newURL parseJSON e (Some ov)) = Inr c \<and>
      version c = (case o_version ov of Some v \<Rightarrow> v
                   | None \<Rightarrow> version (environment_layer parseJSON e)) \<and>
      site c = (case o_site ov of Some v \<Rightarrow> v
                | None \<Rightarrow> site (environment_layer parseJSON e)) \<and>
      features c = (case o_features ov of Some v \<Rightarrow> v
                    | None \<Rightarrow> features (environment_layer parseJSON e)) \<and>
      seo c = (case o_seo ov of Some v \<Rightarrow> v
               | None \<Rightarrow> seo (environment_layer parseJSON e)) \<and>
      advanced c = (case o_advanced ov of Some v \<Rightarrow> v
                    | None \<Rightarrow> advanced (environment_layer parseJSON e))"
    by (simp add: loadConfiguration_config loadFromEnvironment_environment_layer object_assign_def)
  show ?thesis
    by (intro conjI a b c loadFromEnvironment_environment_layer)
qed

text \<open>
  The theorem at an environment that sets the site name, the favicon, the search flag
  to \<open>No\<close>, the offline flag to \<open>YES\<close> and the exclude patterns, and sets the URL to the
  empty string. Without overrides the configuration has these values over the
  defaults; with the sample overrides the site section is the one of the overrides,
  and the other sections keep what the environment set.
\<close>

theorem loadConfiguration_layers_witness:
  "(\<exists>c. fst (loadConfiguration sample_newURL sample_parseJSON site_env None) = Inr c \<and>
      site c = \<lparr> site_name = ''Field Notes'',
                 site_description = ''A collection of interconnected notes and ideas'',
                 site_url = ''https://example.com'', site_favicon = Some ''favicon.ico'' \<rparr> \<and>
      \<not> search (features c) \<and> graphView (features c) \<and> offlineResources (advanced c) \<and>
      excludePatterns (advanced c) = [''Private/**'', ''Inbox/**'']) \<and>
   (\<exists>c. fst (loadConfiguration sample_newURL sample_parseJSON site_env (Some sample_overrides)) = Inr c \<and>
      site c = sample_site \<and>
      \<not> search (features c) \<and> graphView (features c) \<and> offlineResources (advanced c) \<and>
      excludePatterns (advanced c) = [''Private/**'', ''Inbox/**''])"
proof -
  note t = loadConfiguration_layers [where newURL = sample_newURL and parseJSON = sample_parseJSON
      and e = site_env and ov = sample_overrides]
  have s: "site (environment_layer sample_parseJSON site_env) =
             \<lparr> site_name = ''Field Notes'',
               site_description = ''A collection of interconnected notes and ideas'',
               site_url = ''https://example.com'', site_favicon = Some ''favicon.ico'' \<rparr>"
    by (simp add: environment_layer_def string_variable_def site_env_def DEFAULT_WEB_CONFIG_def)
  have f: "\<not> search (features (environment_layer sample_parseJSON site_env))"
          "graphView (features (environment_layer sample_parseJSON site_env))"
          "offlineResources (advanced (environment_layer sample_parseJSON site_env))"
    by (simp_all add: environment_layer_def boolean_variable_def site_env_def DEFAULT_WEB_CONFIG_def
        toLowerCase_def trim_def lower_char_def is_ws_def)
  have x: "excludePatterns (advanced (environment_layer sample_parseJSON site_env))
             = [''Private/**'', ''Inbox/**'']"
    by (simp add: environment_layer_def string_variable_def site_env_def trim_def is_ws_def)
  have a: "\<exists>c. fst (loadConfiguration sample_newURL sample_parseJSON site_env None) = Inr c \<and>
      site c = \<lparr> site_name = ''Field Notes'',
                 site_description = ''A collection of interconnected notes and ideas'',
                 site_url = ''https://example.com'', site_favicon = Some ''favicon.ico'' \<rparr> \<and>
      \<not> search (features c) \<and> graphView (features c) \<and> offlineResources (advanced c) \<and>
      excludePatterns (advanced c) = [''Private/**'', ''Inbox/**'']"
    using t [THEN conjunct2, THEN conjunct2, THEN conjunct1] s f x by simp
  from t [THEN conjunct2, THEN conjunct2, THEN conjunct2] obtain c where
    c: "fst (loadConfiguration sample_newURL sample_parseJSON site_env (Some sample_overrides)) = Inr c"
      "site c = (case o_site sample_overrides of Some v \<Rightarrow> v
                 | None \<Rightarrow> site (environment_layer sample_parseJSON site_env))"
      "features c = (case o_features sample_overrides of Some v \<Rightarrow> v
                     | None \<Rightarrow> features (environment_layer sample_parseJSON site_env))"
      "advanced c = (case o_advanced sample_overrides of Some v \<Rightarrow> v
                     | None \<Rightarrow> advanced (environment_layer sample_parseJSON site_env))"
    by blast
  have b: "\<exists>c. fst (loadConfiguration sample_newURL sample_parseJSON site_env (Some sample_overrides)) = Inr c \<and>
      site c = sample_site \<and>
      \<not> search (features c) \<and> graphView (features c) \<and> offlineResources (advanced c) \<and>
      excludePatterns (advanced c) = [''Private/**'', ''Inbox/**'']"
    using c f x by (intro exI [of _ c]) (simp add: sample_overrides_def)
  show ?thesis using a b by blast
qed

text \<open>
  C4, as stated, fails. The environment sets the favicon; the overrides set the name,
  the description and the URL of the site and no favicon; the favicon of the resulting
  configuration is absent, not the one of the environment layer.
\<close>

theorem loadConfiguration_shallow_counterexample:
  "site_favicon (site (fst (loadFromEnvironment sample_parseJSON sample_env))) = Some ''favicon.ico'' \<and>
   o_site sample_overrides = Some sample_site \<and> site_favicon sample_site = None \<and>
   map_sum id (\<lambda>c. site_favicon (site c))
     (fst (loadConfiguration sample_newURL sample_parseJSON sample_env (Some sample_overrides)))
     = Inr None"
proof -
  have o: "\<And>e x st. site_favicon (site (fst (set_string e x
               (\<lambda>v c. c\<lparr>site := (site c)\<lparr>site_favicon := Some v\<rparr>\<rparr>) st))) =
             (if truthy (e x) then Some (the (e x)) else site_favicon (site (fst st)))"
    by (simp add: set_string_def)
  have f: "site_favicon (site (fst (loadFromEnvironment sample_parseJSON sample_env))) = Some ''favicon.ico''"
    unfolding loadFromEnvironment_def Let_def
    by (simp add: setters_other [where get = "\<lambda>c. site_favicon (site c)"] o
        sample_env_def truthy_def)
  have r: "map_sum id (\<lambda>c. site_favicon (site c))
        (fst (loadConfiguration sample_newURL sample_parseJSON sample_env (Some sample_overrides)))
        = Inr None"
    by (simp add: loadConfiguration_config object_assign_def sample_overrides_def sample_site_def)
  show ?thesis using f r by (simp add: sample_overrides_def sample_site_def)
qed

section \<open>The Docker export and its exit code\<close>

text \<open>
  The six progress calls of \<open>performExport\<close> do not throw.
\<close>

lemma log_progress_within_total:
  "cur \<le> 100 \<Longrightarrow> fst (log_progress lg stg cur 100 msg) = None"
  by (simp add: log_progress_def Let_def progress_bar_fails_def)

lemma success_catch_exportForDocker [simp]:
  "\<not> success (fst (catch_exportForDocker options lg err))"
  by (simp add: catch_exportForDocker_def Let_def)

lemma fst_export_phase:
  "fst (export_phase steps options config vr lg) =
     map_sum id (\<lambda>r. r\<lparr>validationResult := vr\<rparr>)
       (fst (step_performExport steps (vaultPath options) (outputPath options) config))"
  by (simp add: export_phase_def Let_def split: sum.splits)

lemma fst_try_exportForDocker:
  "fst (try_exportForDocker steps options lg) =
     (case fst (step_loadConfiguration steps (configOverrides options)) of
        Inl err \<Rightarrow> Inl err
      | Inr config \<Rightarrow>
          if validateVault_option options \<noteq> Some False then
            (case fst (step_validateVault steps (vaultPath options)) of
               Inl err \<Rightarrow> Inl err
             | Inr vr \<Rightarrow>
                 if \<not> isValid vr then
                   Inr \<lparr> success = False, result_outputPath = outputPath options,
                         filesGenerated = 0,
                         result_warnings = map WarningMessage (warnings vr),
                         result_errors = map ErrorMessage (errors vr),
                         validationResult = Some vr \<rparr>
                 else map_sum id (\<lambda>r. r\<lparr>validationResult := Some vr\<rparr>)
                        (fst (step_performExport steps (vaultPath options) (outputPath options) config)))
          else map_sum id (\<lambda>r. r\<lparr>validationResult := None\<rparr>)
                 (fst (step_performExport steps (vaultPath options) (outputPath options) config)))"
  by (simp add: try_exportForDocker_def Let_def fst_export_phase split: sum.splits)

lemma fst_exportForDocker:
  "fst (exportForDocker steps options lg) =
     (case fst (try_exportForDocker steps options
                  (startOperation lg ''Docker Export'' [''vaultPath'', ''outputPath''])) of
        Inr result \<Rightarrow> result
      | Inl err \<Rightarrow>
          fst (catch_exportForDocker options
                 (snd (try_exportForDocker steps options
                         (startOperation lg ''Docker Export'' [''vaultPath'', ''outputPath''])))
                 err))"
  by (simp add: exportForDocker_def Let_def split: sum.splits)

lemma success_exportForDocker:
  "success (fst (exportForDocker steps options lg)) = run_goes_through steps options"
proof -
  let ?lg = "startOperation lg ''Docker Export'' [''vaultPath'', ''outputPath'']"
  let ?load = "fst (step_loadConfiguration steps (configOverrides options))"
  let ?v = "fst (step_validateVault steps (vaultPath options))"
  show ?thesis
  proof (cases ?load)
    case (Inl err)
    then show ?thesis
      by (simp add: fst_exportForDocker fst_try_exportForDocker run_goes_through_def)
  next
    case (Inr config)
    let ?p = "fst (step_performExport steps (vaultPath options) (outputPath options) config)"
    have p: "\<And>vr. success (case map_sum id (\<lambda>r. r\<lparr>validationResult := vr\<rparr>) ?p of
                 Inr result \<Rightarrow> result
               | Inl err \<Rightarrow> fst (catch_exportForDocker options (snd (try_exportForDocker steps options ?lg)) err))
             = (case ?p of Inl err \<Rightarrow> False | Inr r \<Rightarrow> success r)"
      by (cases ?p) simp_all
    show ?thesis
    proof (cases "validateVault_option options = Some False")
      case True
      then show ?thesis using Inr p [of None]
        by (simp add: fst_exportForDocker fst_try_exportForDocker run_goes_through_def)
    next
      case False
      show ?thesis
      proof (cases ?v)
        case (Inl err)
        then show ?thesis using Inr False
          by (simp add: fst_exportForDocker fst_try_exportForDocker run_goes_through_def)
      next
        case vr: (Inr vr)
        show ?thesis
        proof (cases "isValid vr")
          case True
          then show ?thesis using Inr False vr p [of "Some vr"]
            by (simp add: fst_exportForDocker fst_try_exportForDocker run_goes_through_def)
        next
          case nv: False
          then show ?thesis using Inr False vr
            by (simp add: fst_exportForDocker fst_try_exportForDocker run_goes_through_def)
        qed
      qed
    qed
  qed
qed

lemma cli_options_fields:
  "configOverrides (cli_options e argv) = None"
  "validateVault_option (cli_options e argv) = Some True"
  by (simp_all add: cli_options_def Let_def)

lemma fst_runDockerExport:
  "fst (runDockerExport steps e argv inst) =
     (if run_goes_through steps (cli_options e argv) then 0 else 1)"
  by (simp add: runDockerExport_def Let_def success_exportForDocker)

text \<open>
  C6. \<open>runDockerExport\<close> exits with code 0 when the result of \<open>exportForDocker\<close> has
  \<open>success\<close> true and with code 1 otherwise. \<open>exportForDocker\<close> returns a result on every
  run, with \<open>success\<close> true exactly when the run goes through; when a step inside its
  \<open>try\<close> block throws, whatever the exception, or when the vault is not valid, the
  result has \<open>success\<close> false, and so the exit code is 1.
\<close>

theorem runDockerExport_exit_code:
  "fst (runDockerExport steps e argv inst) =
     (if success (fst (exportForDocker steps (cli_options e argv)
                         (info (getLogger e inst) ''Starting Docker export''
                            (Some [''vaultPath'', ''outputPath'']))))
      then 0 else 1) \<and>
   (success (fst (exportForDocker steps options lg)) \<longleftrightarrow> run_goes_through steps options) \<and>
   (fst (step_loadConfiguration steps (configOverrides options)) = Inl err \<longrightarrow>
      \<not> success (fst (exportForDocker steps options lg))) \<and>
   (validateVault_option options \<noteq> Some False \<and>
    fst (step_validateVault steps (vaultPath options)) = Inl err \<longrightarrow>
      \<not> success (fst (exportForDocker steps options lg))) \<and>
   (validateVault_option options \<noteq> Some False \<and>
    fst (step_validateVault steps (vaultPath options)) = Inr vr \<and> \<not> isValid vr \<longrightarrow>
      \<not> success (fst (exportForDocker steps options lg))) \<and>
   (fst (step_loadConfiguration steps (configOverrides options)) = Inr config \<and>
    fst (step_performExport steps (vaultPath options) (outputPath options) config) = Inl err \<longrightarrow>
      \<not> success (fst (exportForDocker steps options lg))) \<and>
   (fst (step_loadConfiguration steps None) = Inl err \<or>
    fst (step_validateVault steps (vaultPath (cli_options e argv))) = Inl err \<or>
    (fst (step_validateVault steps (vaultPath (cli_options e argv))) = Inr vr \<and> \<not> isValid vr) \<or>
    (fst (step_loadConfiguration steps None) = Inr config \<and>
     fst (step_performExport steps (vaultPath (cli_options e argv))
            (outputPath (cli_options e argv)) config) = Inl err)
      \<longrightarrow> fst (runDockerExport steps e argv inst) = 1)"
proof -
  note o = cli_options_fields [of e argv]
  have a: "fst (runDockerExport steps e argv inst) =
     (if success (fst (exportForDocker steps (cli_options e argv)
                         (info (getLogger e inst) ''Starting Docker export''
                            (Some [''vaultPath'', ''outputPath'']))))
      then 0 else 1)"
    by (simp add: runDockerExport_def Let_def getLogger_def getInstance_def)
  have b: "fst (step_loadConfiguration steps (configOverrides options)) = Inl err \<longrightarrow>
      \<not> success (fst (exportForDocker steps options lg))"
    by (simp add: success_exportForDocker run_goes_through_def)
  have c: "validateVault_option options \<noteq> Some False \<and>
    fst (step_validateVault steps (vaultPath options)) = Inl err \<longrightarrow>
      \<not> success (fst (exportForDocker steps options lg))"
    by (simp add: success_exportForDocker run_goes_through_def split: sum.splits)
  have d: "validateVault_option options \<noteq> Some False \<and>
    fst (step_validateVault steps (vaultPath options)) = Inr vr \<and> \<not> isValid vr \<longrightarrow>
      \<not> success (fst (exportForDocker steps options lg))"
    by (simp add: success_exportForDocker run_goes_through_def split: sum.splits)
  have f: "fst (step_loadConfiguration steps (configOverrides options)) = Inr config \<and>
    fst (step_performExport steps (vaultPath options) (outputPath options) config) = Inl err \<longrightarrow>
      \<not> success (fst (exportForDocker steps options lg))"
    by (simp add: success_exportForDocker run_goes_through_def split: sum.splits)
  have g: "fst (step_loadConfiguration steps None) = Inl err \<or>
    fst (step_validateVault steps (vaultPath (cli_options e argv))) = Inl err \<or>
    (fst (step_validateVault steps (vaultPath (cli_options e argv))) = Inr vr \<and> \<not> isValid vr) \<or>
    (fst (step_loadConfiguration steps None) = Inr config \<and>
     fst (step_performExport steps (vaultPath (cli_options e argv))
            (outputPath (cli_options e argv)) config) = Inl err)
      \<longrightarrow> fst (runDockerExport steps e argv inst) = 1"
    by (auto simp add: fst_runDockerExport run_goes_through_def o split: sum.splits)
  show ?thesis
    using a b c d f g by (simp add: success_exportForDocker)
qed

lemma sample_load_ok:
  "\<exists>config. fst (step_loadConfiguration sample_steps None) = Inr config"
  by (simp add: sample_steps_def source_steps_def loadConfiguration_config)

lemma sample_cli_options:
  "vaultPath (cli_options sample_env [''node'', ''/app/main.js'']) = ''/vault''"
  "vaultPath (cli_options sample_env [''node'', ''/app/main.js'', ''/notes'']) = ''/notes''"
  by (simp_all add: cli_options_def Let_def first_truthy_def nth_opt_def truthy_def sample_env_def)

text \<open>
  The theorem at five runs. The run on the vault without its configuration directory
  exits with 1, and so do the runs in which the configuration step, the validation
  step or the export step throws; the run on the vault that is ready exits with 0.
\<close>

theorem runDockerExport_exit_code_witness:
  "fst (runDockerExport sample_steps sample_env [''node'', ''/app/main.js'', ''/notes''] None) = 1 \<and>
   fst (runDockerExport broken_config_steps sample_env [''node'', ''/app/main.js''] None) = 1 \<and>
   fst (runDockerExport denied_steps sample_env [''node'', ''/app/main.js''] None) = 1 \<and>
   fst (runDockerExport out_of_memory_steps sample_env [''node'', ''/app/main.js''] None) = 1 \<and>
   fst (runDockerExport sample_steps sample_env [''node'', ''/app/main.js''] None) = 0"
proof -
  have i: "fst (step_validateVault sample_steps ''/notes'') = Inr (validateVault vault_without_config)"
    by (simp add: sample_steps_def source_steps_def integration_validateVault_def Let_def sample_fs_def)
  have n: "\<not> isValid (validateVault vault_without_config)"
    by (simp add: vault_without_config_def validator_defs)
  have x: "fst (step_validateVault denied_steps ''/vault'') =
             Inl (JsError ''Error'' (Some ''EACCES'') ''EACCES: permission denied, scandir'')"
    by (simp add: denied_steps_def)
  have y: "fst (step_loadConfiguration broken_config_steps None) =
             Inl (JsError ''TypeError'' None ''Cannot read properties of undefined (reading 'name')'')"
    by (simp add: broken_config_steps_def)
  obtain config where l: "fst (step_loadConfiguration sample_steps None) = Inr config"
    using sample_load_ok by blast
  then have l': "fst (step_loadConfiguration out_of_memory_steps None) = Inr config"
    by (simp add: out_of_memory_steps_def)
  have z: "fst (step_performExport out_of_memory_steps
                  (vaultPath (cli_options sample_env [''node'', ''/app/main.js'']))
                  (outputPath (cli_options sample_env [''node'', ''/app/main.js''])) config) =
             Inl (JsError ''Error'' None ''JavaScript heap out of memory'')"
    by (simp add: out_of_memory_steps_def)
  have r1: "fst (runDockerExport sample_steps sample_env [''node'', ''/app/main.js'', ''/notes''] None) = 1"
    using runDockerExport_exit_code [where steps = sample_steps and e = sample_env
        and argv = "[''node'', ''/app/main.js'', ''/notes'']" and inst = None
        and vr = "validateVault vault_without_config", THEN conjunct2, THEN conjunct2, THEN conjunct2, THEN conjunct2, THEN conjunct2,
        THEN conjunct2] i n
    by (simp add: sample_cli_options)
  have r2: "fst (runDockerExport denied_steps sample_env [''node'', ''/app/main.js''] None) = 1"
    using runDockerExport_exit_code [where steps = denied_steps and e = sample_env
        and argv = "[''node'', ''/app/main.js'']" and inst = None
        and err = "JsError ''Error'' (Some ''EACCES'') ''EACCES: permission denied, scandir''",
        THEN conjunct2, THEN conjunct2, THEN conjunct2, THEN conjunct2, THEN conjunct2,
        THEN conjunct2] x
    by (simp add: sample_cli_options)
  have r4: "fst (runDockerExport broken_config_steps sample_env [''node'', ''/app/main.js''] None) = 1"
    using runDockerExport_exit_code [where steps = broken_config_steps and e = sample_env
        and argv = "[''node'', ''/app/main.js'']" and inst = None
        and err = "JsError ''TypeError'' None ''Cannot read properties of undefined (reading 'name')''",
        THEN conjunct2, THEN conjunct2, THEN conjunct2, THEN conjunct2, THEN conjunct2,
        THEN conjunct2] y
    by simp
  have r5: "fst (runDockerExport out_of_memory_steps sample_env [''node'', ''/app/main.js''] None) = 1"
    using runDockerExport_exit_code [where steps = out_of_memory_steps and e = sample_env
        and argv = "[''node'', ''/app/main.js'']" and inst = None and config = config
        and err = "JsError ''Error'' None ''JavaScript heap out of memory''",
        THEN conjunct2, THEN conjunct2, THEN conjunct2, THEN conjunct2, THEN conjunct2,
        THEN conjunct2] l' z
    by simp
  have v: "fst (step_validateVault sample_steps ''/vault'') = Inr (validateVault vault_ready)"
    by (simp add: sample_steps_def source_steps_def integration_validateVault_def Let_def sample_fs_def)
  have ok: "isValid (validateVault vault_ready)"
    by (simp add: vault_ready_def validator_defs)
  have g: "run_goes_through sample_steps (cli_options sample_env [''node'', ''/app/main.js''])"
    using sample_load_ok v ok
    by (auto simp add: run_goes_through_def sample_cli_options cli_options_fields
        sample_steps_def source_steps_def performExport_def)
  note t = runDockerExport_exit_code [where steps = sample_steps and e = sample_env
      and argv = "[''node'', ''/app/main.js'']" and inst = None
      and options = "cli_options sample_env [''node'', ''/app/main.js'']"
      and lg = "info (getLogger sample_env None) ''Starting Docker export''
                  (Some [''vaultPath'', ''outputPath''])"]
  have "success (fst (exportForDocker sample_steps
                        (cli_options sample_env [''node'', ''/app/main.js''])
                        (info (getLogger sample_env None) ''Starting Docker export''
                           (Some [''vaultPath'', ''outputPath'']))))"
    using t [THEN conjunct2, THEN conjunct1] g by simp
  then have r3: "fst (runDockerExport sample_steps sample_env [''node'', ''/app/main.js''] None) = 0"
    using t [THEN conjunct1] by simp
  show ?thesis using r1 r2 r3 r4 r5 by simp
qed

section \<open>One export run: clean-up and the renderer's batch\<close>

lemma Delete_delete_loop:
  "Delete p \<in> set (delete_loop w destination deleted) \<longleftrightarrow>
     (\<exists>d \<in> set deleted. p = new_Path w d (path_string destination) \<and> \<not> isFontFile p)"
  by (induction deleted) (auto simp add: Let_def split: option.splits)

lemma skipped_delete_loop:
  "d \<in> set deleted \<Longrightarrow> isFontFile (new_Path w d (path_string destination)) \<Longrightarrow>
     Progress ''Deleting Old Files''
       (''Skipping: '' @ path_string (new_Path w d (path_string destination)))
       \<in> set (delete_loop w destination deleted)"
  by (induction deleted) (auto simp add: Let_def split: option.splits)

lemma warned_delete_loop:
  "d \<in> set deleted \<Longrightarrow> \<not> isFontFile (new_Path w d (path_string destination)) \<Longrightarrow>
   delete_path w (new_Path w d (path_string destination)) = Some err \<Longrightarrow>
     LogLine (''Warning: Could not delete file ''
              @ path_string (new_Path w d (path_string destination)) @ '': '' @ error_toString err)
       \<in> set (delete_loop w destination deleted)"
  by (induction deleted) (auto simp add: Let_def split: option.splits)

lemma batch_free_delete_loop:
  "filter is_batch_event (delete_loop w destination deleted) = []"
  by (induction deleted) (simp_all add: Let_def is_batch_event_def split: option.splits)

lemma Delete_cleanupOldFiles:
  "Delete p \<in> set (cleanupOldFiles w website destination) \<longleftrightarrow>
     (\<exists>deleted. deletedFiles website = Some deleted \<and>
        (\<exists>d \<in> set deleted. p = new_Path w d (path_string destination) \<and> \<not> isFontFile p))"
  by (cases "deletedFiles website")
     (auto simp add: cleanupOldFiles_def Delete_delete_loop split: option.splits)

lemma delete_loop_subset_cleanupOldFiles:
  "deletedFiles website = Some deleted \<Longrightarrow>
     set (delete_loop w destination deleted) \<subseteq> set (cleanupOldFiles w website destination)"
proof (cases "deleted = []")
  case True
  then show ?thesis by simp
next
  case False
  moreover assume "deletedFiles website = Some deleted"
  ultimately show ?thesis
    by (auto simp add: cleanupOldFiles_def simp del: delete_loop.simps)
qed

lemma sweep_cleanupOldFiles:
  assumes "deletedFiles website = Some deleted" and "deleted \<noteq> []"
  shows "RemoveEmptyDirectories (path_string destination)
           \<in> set (cleanupOldFiles w website destination)"
    and "removeEmptyDirectories w (path_string destination) = Some err \<Longrightarrow>
         LogLine (''Warning: Could not remove empty directories: '' @ error_toString err)
           \<in> set (cleanupOldFiles w website destination)"
  using assms by (simp_all add: cleanupOldFiles_def)

lemma batch_free_cleanupOldFiles:
  "filter is_batch_event (cleanupOldFiles w website destination) = []"
  by (simp add: cleanupOldFiles_def batch_free_delete_loop is_batch_event_def split: option.splits)

lemma Delete_saveWebsiteFiles: "Delete p \<notin> set (snd (saveWebsiteFiles w website))"
  by (simp add: saveWebsiteFiles_def Let_def split: option.splits)

lemma batch_free_saveWebsiteFiles:
  "filter is_batch_event (snd (saveWebsiteFiles w website)) = []"
  by (simp add: saveWebsiteFiles_def Let_def is_batch_event_def split: option.splits)

lemma saved_saveWebsiteFiles:
  "fst (saveWebsiteFiles w website) = None \<Longrightarrow>
     Download [websiteDataAttachment website, indexDataAttachment website]
       \<in> set (snd (saveWebsiteFiles w website))"
  by (simp add: saveWebsiteFiles_def Let_def split: option.splits if_splits)

lemma Delete_validateExportInputs: "Delete p \<notin> set (snd (validateExportInputs w files destination))"
  by (simp add: validateExportInputs_def validateVaultStructure_def split: option.splits)

lemma batch_free_validateExportInputs:
  "filter is_batch_event (snd (validateExportInputs w files destination)) = []"
  by (simp add: validateExportInputs_def validateVaultStructure_def is_batch_event_def
      split: option.splits)

text \<open>The events of the \<open>try\<close> block, by the outcome of the build.\<close>

lemma snd_try_exportFiles:
  "snd (try_exportFiles w files destination saveFiles deleteOld) =
     [LogLine ''Starting web-optimized export...'', Build destination files]
     @ (case build_website w destination files of
          Inl err \<Rightarrow> []
        | Inr None \<Rightarrow> [Notice ''Export Cancelled'']
        | Inr (Some website) \<Rightarrow>
            (if deleteOld then cleanupOldFiles w website destination else [])
            @ (if saveFiles then snd (saveWebsiteFiles w website) else [])
            @ (if saveFiles \<and> fst (saveWebsiteFiles w website) \<noteq> None then []
               else [LogLine ''Web export completed successfully'']))"
  by (simp add: try_exportFiles_def Let_def split: sum.splits option.splits)

lemma fst_try_exportFiles:
  "fst (try_exportFiles w files destination saveFiles deleteOld) =
     (case build_website w destination files of
        Inl err \<Rightarrow> Inl err
      | Inr None \<Rightarrow> Inr None
      | Inr (Some website) \<Rightarrow>
          (case (if saveFiles then fst (saveWebsiteFiles w website) else None) of
             Some err \<Rightarrow> Inl err
           | None \<Rightarrow> Inr (Some website)))"
  by (simp add: try_exportFiles_def Let_def split: sum.splits option.splits)

lemma Delete_try_exportFiles:
  "Delete p \<in> set (snd (try_exportFiles w files destination saveFiles deleteOld)) \<Longrightarrow>
     \<not> isFontFile p"
  by (auto simp add: snd_try_exportFiles Delete_cleanupOldFiles Delete_saveWebsiteFiles
      split: sum.splits option.splits if_splits)

lemma batch_free_try_exportFiles:
  "filter is_batch_event (snd (try_exportFiles w files destination saveFiles deleteOld)) = []"
  by (simp add: snd_try_exportFiles batch_free_cleanupOldFiles batch_free_saveWebsiteFiles
      is_batch_event_def split: sum.splits option.splits)

lemma snd_exportFiles:
  "snd (exportFiles w files destination saveFiles deleteOld) =
     snd (validateExportInputs w files destination)
     @ (case fst (validateExportInputs w files destination) of
          Some err \<Rightarrow> [Notice (''Export validation failed: '' @ err),
                       LogError err ''Export Validation Failed'']
        | None \<Rightarrow>
            [BeginBatch]
            @ snd (try_exportFiles w files destination saveFiles deleteOld)
            @ (case fst (try_exportFiles w files destination saveFiles deleteOld) of
                 Inr website \<Rightarrow> []
               | Inl err \<Rightarrow> [Notice (''Export Failed: '' @ err_message err),
                              LogError (err_message err) ''Export Failed''])
            @ [EndBatch])"
  by (simp add: exportFiles_def Let_def split: sum.splits option.splits)

lemma Delete_exportFiles:
  "Delete p \<in> set (snd (exportFiles w files destination saveFiles deleteOld)) \<Longrightarrow>
     \<not> isFontFile p"
  using Delete_try_exportFiles [of p w files destination saveFiles deleteOld]
    Delete_validateExportInputs [of p w files destination]
  by (auto simp add: snd_exportFiles split: sum.splits option.splits)

lemma cleanup_subset_exportFiles:
  assumes "fst (validateExportInputs w files destination) = None"
    and "build_website w destination files = Inr (Some website)"
  shows "set (cleanupOldFiles w website destination)
           \<subseteq> set (snd (exportFiles w files destination saveFiles True))"
  using assms by (auto simp add: snd_exportFiles snd_try_exportFiles)

lemma save_subset_exportFiles:
  assumes "fst (validateExportInputs w files destination) = None"
    and "build_website w destination files = Inr (Some website)"
  shows "set (snd (saveWebsiteFiles w website))
           \<subseteq> set (snd (exportFiles w files destination True deleteOld))"
  using assms by (auto simp add: snd_exportFiles snd_try_exportFiles)

lemma isFontFile_extension:
  "isFontFile p \<longleftrightarrow> toLowerCase (path_extension p) \<in> {''woff'', ''woff2'', ''ttf'', ''otf''}"
  by (simp add: isFontFile_def)

text \<open>
  C5. In the events of an export run, whatever its arguments, no path is deleted whose
  extension in lower case is \<open>woff\<close>, \<open>woff2\<close>, \<open>ttf\<close> or \<open>otf\<close>. When the run passes
  validation, the build returns a website and \<open>deleteOld\<close> is requested, every path of
  \<open>deletedFiles\<close> with such an extension is reported as skipped and is not deleted, and
  for every other path of \<open>deletedFiles\<close> the deletion is attempted.
\<close>

theorem font_files_never_deleted:
  "(\<forall>p. Delete p \<in> set (snd (exportFiles w files destination saveFiles deleteOld)) \<longrightarrow>
          toLowerCase (path_extension p) \<notin> {''woff'', ''woff2'', ''ttf'', ''otf''}) \<and>
   (fst (validateExportInputs w files destination) = None \<and>
    build_website w destination files = Inr (Some website) \<and>
    deletedFiles website = Some deleted \<and> d \<in> set deleted \<longrightarrow>
      (if toLowerCase (path_extension (new_Path w d (path_string destination)))
            \<in> {''woff'', ''woff2'', ''ttf'', ''otf''}
       then Progress ''Deleting Old Files''
              (''Skipping: '' @ path_string (new_Path w d (path_string destination)))
              \<in> set (snd (exportFiles w files destination saveFiles True)) \<and>
            Delete (new_Path w d (path_string destination))
              \<notin> set (snd (exportFiles w files destination saveFiles True))
       else Delete (new_Path w d (path_string destination))
              \<in> set (snd (exportFiles w files destination saveFiles True))))"
proof (intro conjI allI impI)
  fix p
  assume "Delete p \<in> set (snd (exportFiles w files destination saveFiles deleteOld))"
  then show "toLowerCase (path_extension p) \<notin> {''woff'', ''woff2'', ''ttf'', ''otf''}"
    using Delete_exportFiles [of p w files destination saveFiles deleteOld]
    unfolding isFontFile_extension by blast
next
  let ?p = "new_Path w d (path_string destination)"
  let ?trace = "snd (exportFiles w files destination saveFiles True)"
  assume a: "fst (validateExportInputs w files destination) = None \<and>
    build_website w destination files = Inr (Some website) \<and>
    deletedFiles website = Some deleted \<and> d \<in> set deleted"
  then have sub: "set (delete_loop w destination deleted) \<subseteq> set ?trace"
    using cleanup_subset_exportFiles [of w files destination website saveFiles]
      delete_loop_subset_cleanupOldFiles [of website deleted w destination]
    by blast
  show "if toLowerCase (path_extension ?p) \<in> {''woff'', ''woff2'', ''ttf'', ''otf''}
        then Progress ''Deleting Old Files'' (''Skipping: '' @ path_string ?p) \<in> set ?trace \<and>
             Delete ?p \<notin> set ?trace
        else Delete ?p \<in> set ?trace"
  proof (cases "isFontFile ?p")
    case True
    then have "Progress ''Deleting Old Files'' (''Skipping: '' @ path_string ?p) \<in> set ?trace"
      using skipped_delete_loop [of d deleted w destination] a sub by blast
    moreover have "Delete ?p \<notin> set ?trace"
      using Delete_exportFiles [of ?p w files destination saveFiles True] True by blast
    ultimately show ?thesis
      using True unfolding isFontFile_extension by simp
  next
    case False
    then have "Delete ?p \<in> set (delete_loop w destination deleted)"
      using a by (auto simp add: Delete_delete_loop)
    then have "Delete ?p \<in> set ?trace"
      using sub by blast
    then show ?thesis
      using False unfolding isFontFile_extension by simp
  qed
qed

lemma sample_run_facts:
  "fst (validateExportInputs sample_world [''note.md''] sample_destination) = None"
  "build_website sample_world sample_destination [''note.md''] = Inr (Some sample_website)"
  "deletedFiles sample_website = Some [''old/note.html'', ''fonts/Inter.WOFF2'', ''locked.html'']"
  "new_Path sample_world = sample_new_Path"
  "path_string sample_destination = ''/output''"
  by (simp_all add: validateExportInputs_def validateVaultStructure_def sample_world_def
      sample_destination_def sample_website_def)

text \<open>
  The theorem at the sample export: the font \<open>fonts/Inter.WOFF2\<close> is skipped and not
  deleted, and the deletion of \<open>old/note.html\<close> is attempted.
\<close>

theorem font_files_never_deleted_witness:
  "Progress ''Deleting Old Files'' ''Skipping: /output/fonts/Inter.WOFF2''
     \<in> set (snd (exportFiles sample_world [''note.md''] sample_destination True True)) \<and>
   Delete (sample_new_Path ''fonts/Inter.WOFF2'' ''/output'')
     \<notin> set (snd (exportFiles sample_world [''note.md''] sample_destination True True)) \<and>
   Delete (sample_new_Path ''old/note.html'' ''/output'')
     \<in> set (snd (exportFiles sample_world [''note.md''] sample_destination True True))"
proof -
  note t = font_files_never_deleted [where w = sample_world and files = "[''note.md'']"
      and destination = sample_destination and saveFiles = True and website = sample_website
      and deleted = "[''old/note.html'', ''fonts/Inter.WOFF2'', ''locked.html'']"]
  have f: "toLowerCase (path_extension (sample_new_Path ''fonts/Inter.WOFF2'' ''/output''))
             \<in> {''woff'', ''woff2'', ''ttf'', ''otf''}"
    by (simp add: sample_new_Path_def toLowerCase_def lower_char_def)
  have h: "toLowerCase (path_extension (sample_new_Path ''old/note.html'' ''/output''))
             \<notin> {''woff'', ''woff2'', ''ttf'', ''otf''}"
    by (simp add: sample_new_Path_def toLowerCase_def lower_char_def)
  have s: "path_string (sample_new_Path ''fonts/Inter.WOFF2'' ''/output'') = ''/output/fonts/Inter.WOFF2''"
    by (simp add: sample_new_Path_def)
  have a: "Progress ''Deleting Old Files'' ''Skipping: /output/fonts/Inter.WOFF2''
             \<in> set (snd (exportFiles sample_world [''note.md''] sample_destination True True)) \<and>
           Delete (sample_new_Path ''fonts/Inter.WOFF2'' ''/output'')
             \<notin> set (snd (exportFiles sample_world [''note.md''] sample_destination True True))"
    using t [where d = "''fonts/Inter.WOFF2''", THEN conjunct2] f s
    by (simp add: sample_run_facts)
  have b: "Delete (sample_new_Path ''old/note.html'' ''/output'')
             \<in> set (snd (exportFiles sample_world [''note.md''] sample_destination True True))"
    using t [where d = "''old/note.html''", THEN conjunct2] h
    by (simp add: sample_run_facts)
  show ?thesis using a b by simp
qed

lemma fst_exportFiles:
  "fst (exportFiles w files destination saveFiles deleteOld) =
     (case fst (validateExportInputs w files destination) of
        Some err \<Rightarrow> None
      | None \<Rightarrow>
          (case fst (try_exportFiles w files destination saveFiles deleteOld) of
             Inr website \<Rightarrow> website
           | Inl err \<Rightarrow> None))"
  by (simp add: exportFiles_def Let_def split: sum.splits option.splits)

text \<open>
  C8. Take a run that passes validation, whose build returns a website and whose save
  step, if requested, does not fail. Then \<open>exportFiles\<close> returns the website, whatever
  the deletion of a file and the sweep of the empty directories do. With \<open>deleteOld\<close>
  requested and a non-empty list of deleted files: the deletion of every file of the
  list that is not a font is attempted, also after an earlier deletion has failed; a
  deletion that fails is logged as a warning; the sweep is attempted, and logged as a
  warning if it fails; and the save step, if requested, is carried out.
\<close>

theorem cleanup_failures_not_fatal:
  assumes v: "fst (validateExportInputs w files destination) = None"
    and b: "build_website w destination files = Inr (Some website)"
    and s: "saveFiles \<longrightarrow> fst (saveWebsiteFiles w website) = None"
  shows "fst (exportFiles w files destination saveFiles deleteOld) = Some website \<and>
    (deletedFiles website = Some deleted \<and> deleted \<noteq> [] \<longrightarrow>
       (\<forall>d \<in> set deleted.
          \<not> isFontFile (new_Path w d (path_string destination)) \<longrightarrow>
            Delete (new_Path w d (path_string destination))
              \<in> set (snd (exportFiles w files destination saveFiles True)) \<and>
            (\<forall>err. delete_path w (new_Path w d (path_string destination)) = Some err \<longrightarrow>
               LogLine (''Warning: Could not delete file ''
                        @ path_string (new_Path w d (path_string destination))
                        @ '': '' @ error_toString err)
                 \<in> set (snd (exportFiles w files destination saveFiles True)))) \<and>
       RemoveEmptyDirectories (path_string destination)
         \<in> set (snd (exportFiles w files destination saveFiles True)) \<and>
       (\<forall>err. removeEmptyDirectories w (path_string destination) = Some err \<longrightarrow>
          LogLine (''Warning: Could not remove empty directories: '' @ error_toString err)
            \<in> set (snd (exportFiles w files destination saveFiles True)))) \<and>
    (saveFiles \<longrightarrow>
       Download [websiteDataAttachment website, indexDataAttachment website]
         \<in> set (snd (exportFiles w files destination saveFiles deleteOld)))"
proof (intro conjI impI)
  show "fst (exportFiles w files destination saveFiles deleteOld) = Some website"
    using v b s by (simp add: fst_exportFiles fst_try_exportFiles)
next
  let ?trace = "snd (exportFiles w files destination saveFiles True)"
  assume d: "deletedFiles website = Some deleted \<and> deleted \<noteq> []"
  have c: "set (cleanupOldFiles w website destination) \<subseteq> set ?trace"
    using cleanup_subset_exportFiles [OF v b] .
  have l: "set (delete_loop w destination deleted) \<subseteq> set ?trace"
    using delete_loop_subset_cleanupOldFiles [of website deleted w destination] d c by blast
  show "\<forall>d \<in> set deleted.
          \<not> isFontFile (new_Path w d (path_string destination)) \<longrightarrow>
            Delete (new_Path w d (path_string destination)) \<in> set ?trace \<and>
            (\<forall>err. delete_path w (new_Path w d (path_string destination)) = Some err \<longrightarrow>
               LogLine (''Warning: Could not delete file ''
                        @ path_string (new_Path w d (path_string destination))
                        @ '': '' @ error_toString err) \<in> set ?trace)"
  proof (intro ballI impI conjI allI)
    fix x
    assume x: "x \<in> set deleted" and n: "\<not> isFontFile (new_Path w x (path_string destination))"
    then have "Delete (new_Path w x (path_string destination)) \<in> set (delete_loop w destination deleted)"
      by (auto simp add: Delete_delete_loop)
    then show "Delete (new_Path w x (path_string destination)) \<in> set ?trace"
      using l by blast
    fix err
    assume "delete_path w (new_Path w x (path_string destination)) = Some err"
    then have "LogLine (''Warning: Could not delete file ''
                        @ path_string (new_Path w x (path_string destination))
                        @ '': '' @ error_toString err) \<in> set (delete_loop w destination deleted)"
      using warned_delete_loop [OF x n] by blast
    then show "LogLine (''Warning: Could not delete file ''
                        @ path_string (new_Path w x (path_string destination))
                        @ '': '' @ error_toString err) \<in> set ?trace"
      using l by blast
  qed
  show "RemoveEmptyDirectories (path_string destination) \<in> set ?trace"
    using sweep_cleanupOldFiles(1) [of website deleted destination w] d c by blast
  show "\<forall>err. removeEmptyDirectories w (path_string destination) = Some err \<longrightarrow>
          LogLine (''Warning: Could not remove empty directories: '' @ error_toString err)
            \<in> set ?trace"
    using sweep_cleanupOldFiles(2) [of website deleted w destination] d c by blast
next
  assume sf: saveFiles
  then have "fst (saveWebsiteFiles w website) = None" using s by simp
  then have "Download [websiteDataAttachment website, indexDataAttachment website]
               \<in> set (snd (saveWebsiteFiles w website))"
    by (rule saved_saveWebsiteFiles)
  then show "Download [websiteDataAttachment website, indexDataAttachment website]
               \<in> set (snd (exportFiles w files destination saveFiles deleteOld))"
    using save_subset_exportFiles [OF v b, of deleteOld] sf by auto
qed

text \<open>
  The theorem at the sample export, where deleting \<open>locked.html\<close> fails and the sweep
  fails: both are logged, the file after the failure is still handled, the website
  data is saved and the export returns the website.
\<close>

theorem cleanup_failures_not_fatal_witness:
  "delete_path sample_world (sample_new_Path ''locked.html'' ''/output'') \<noteq> None \<and>
   removeEmptyDirectories sample_world ''/output'' \<noteq> None \<and>
   fst (exportFiles sample_world [''note.md''] sample_destination True True) = Some sample_website \<and>
   Delete (sample_new_Path ''locked.html'' ''/output'')
     \<in> set (snd (exportFiles sample_world [''note.md''] sample_destination True True)) \<and>
   LogLine ''Warning: Could not delete file /output/locked.html: Error: EBUSY: resource busy or locked''
     \<in> set (snd (exportFiles sample_world [''note.md''] sample_destination True True)) \<and>
   LogLine ''Warning: Could not remove empty directories: Error: EACCES: permission denied''
     \<in> set (snd (exportFiles sample_world [''note.md''] sample_destination True True)) \<and>
   Download [websiteDataAttachment sample_website, indexDataAttachment sample_website]
     \<in> set (snd (exportFiles sample_world [''note.md''] sample_destination True True))"
proof -
  have s: "True \<longrightarrow> fst (saveWebsiteFiles sample_world sample_website) = None"
    by (simp add: saveWebsiteFiles_def Let_def sample_world_def)
  note t = cleanup_failures_not_fatal [OF sample_run_facts(1) sample_run_facts(2) s,
      where deleteOld = True
        and deleted = "[''old/note.html'', ''fonts/Inter.WOFF2'', ''locked.html'']"]
  have n: "\<not> isFontFile (sample_new_Path ''locked.html'' ''/output'')"
    by (simp add: isFontFile_def sample_new_Path_def toLowerCase_def lower_char_def)
  have p: "path_string (sample_new_Path ''locked.html'' ''/output'') = ''/output/locked.html''"
    by (simp add: sample_new_Path_def)
  have e1: "delete_path sample_world (sample_new_Path ''locked.html'' ''/output'')
              = Some (JsError ''Error'' (Some ''EBUSY'') ''EBUSY: resource busy or locked'')"
    by (simp add: sample_world_def sample_new_Path_def)
  have e2: "removeEmptyDirectories sample_world ''/output''
              = Some (JsError ''Error'' (Some ''EACCES'') ''EACCES: permission denied'')"
    by (simp add: sample_world_def)
  have r: "fst (exportFiles sample_world [''note.md''] sample_destination True True) = Some sample_website"
    using t by simp
  have d: "deletedFiles sample_website = Some [''old/note.html'', ''fonts/Inter.WOFF2'', ''locked.html''] \<and>
           [''old/note.html'', ''fonts/Inter.WOFF2'', ''locked.html''] \<noteq> []"
    by (simp add: sample_run_facts)
  note c = t [THEN conjunct2, THEN conjunct1, rule_format, OF d, unfolded sample_run_facts]
  have x: "Delete (sample_new_Path ''locked.html'' ''/output'')
             \<in> set (snd (exportFiles sample_world [''note.md''] sample_destination True True))"
    using c [THEN conjunct1, rule_format, of "''locked.html''"] n by simp
  have y: "LogLine ''Warning: Could not delete file /output/locked.html: Error: EBUSY: resource busy or locked''
             \<in> set (snd (exportFiles sample_world [''note.md''] sample_destination True True))"
    using c [THEN conjunct1, rule_format, of "''locked.html''"] n e1 p
    by (simp add: error_toString_def)
  have z: "LogLine ''Warning: Could not remove empty directories: Error: EACCES: permission denied''
             \<in> set (snd (exportFiles sample_world [''note.md''] sample_destination True True))"
    using c [THEN conjunct2, THEN conjunct2] e2 by (simp add: error_toString_def)
  have u: "Download [websiteDataAttachment sample_website, indexDataAttachment sample_website]
             \<in> set (snd (exportFiles sample_world [''note.md''] sample_destination True True))"
    using t by simp
  show ?thesis using e1 e2 r x y z u by simp
qed

text \<open>
  C10. Every call of \<open>exportFiles\<close> that passes the validation of its inputs calls
  \<open>beginBatch\<close> once and \<open>endBatch\<close> once, in this order, and \<open>endBatch\<close> is the last thing
  it does: whether the build returns a website, is cancelled or throws, and whether the
  save step throws or not. A call that fails validation calls neither.
\<close>

theorem batch_begun_and_ended_once:
  "(fst (validateExportInputs w files destination) = None \<longrightarrow>
      filter is_batch_event (snd (exportFiles w files destination saveFiles deleteOld))
        = [BeginBatch, EndBatch] \<and>
      last (snd (exportFiles w files destination saveFiles deleteOld)) = EndBatch) \<and>
   (fst (validateExportInputs w files destination) \<noteq> None \<longrightarrow>
      filter is_batch_event (snd (exportFiles w files destination saveFiles deleteOld)) = [])"
proof (intro conjI impI)
  assume v: "fst (validateExportInputs w files destination) = None"
  show "filter is_batch_event (snd (exportFiles w files destination saveFiles deleteOld))
          = [BeginBatch, EndBatch]"
    using v
    by (simp add: snd_exportFiles batch_free_validateExportInputs batch_free_try_exportFiles
        is_batch_event_def split: sum.splits)
  show "last (snd (exportFiles w files destination saveFiles deleteOld)) = EndBatch"
    using v by (simp add: snd_exportFiles)
next
  assume "fst (validateExportInputs w files destination) \<noteq> None"
  then show "filter is_batch_event (snd (exportFiles w files destination saveFiles deleteOld)) = []"
    by (auto simp add: snd_exportFiles batch_free_validateExportInputs is_batch_event_def)
qed

text \<open>
  The theorem at three runs with valid inputs: the build returns a website, the build
  is cancelled, and the build throws.
\<close>

theorem batch_begun_and_ended_once_witness:
  "fst (exportFiles sample_world [''note.md''] sample_destination True True) = Some sample_website \<and>
   filter is_batch_event (snd (exportFiles sample_world [''note.md''] sample_destination True True))
     = [BeginBatch, EndBatch] \<and>
   fst (exportFiles cancelled_world [''note.md''] sample_destination True True) = None \<and>
   filter is_batch_event (snd (exportFiles cancelled_world [''note.md''] sample_destination True True))
     = [BeginBatch, EndBatch] \<and>
   fst (exportFiles throwing_world [''note.md''] sample_destination True True) = None \<and>
   filter is_batch_event (snd (exportFiles throwing_world [''note.md''] sample_destination True True))
     = [BeginBatch, EndBatch] \<and>
   last (snd (exportFiles throwing_world [''note.md''] sample_destination True True)) = EndBatch"
proof -
  have v: "fst (validateExportInputs cancelled_world [''note.md''] sample_destination) = None"
          "fst (validateExportInputs throwing_world [''note.md''] sample_destination) = None"
    by (simp_all add: validateExportInputs_def validateVaultStructure_def sample_world_def
        cancelled_world_def throwing_world_def sample_destination_def)
  have r1: "fst (exportFiles sample_world [''note.md''] sample_destination True True) = Some sample_website"
    by (simp add: fst_exportFiles fst_try_exportFiles sample_run_facts)
       (simp add: saveWebsiteFiles_def Let_def sample_world_def)
  have r2: "fst (exportFiles cancelled_world [''note.md''] sample_destination True True) = None"
    by (simp add: fst_exportFiles fst_try_exportFiles v) (simp add: cancelled_world_def)
  have r3: "fst (exportFiles throwing_world [''note.md''] sample_destination True True) = None"
    by (simp add: fst_exportFiles fst_try_exportFiles v) (simp add: throwing_world_def)
  show ?thesis
    using batch_begun_and_ended_once [where w = sample_world and files = "[''note.md'']"
        and destination = sample_destination and saveFiles = True and deleteOld = True]
      batch_begun_and_ended_once [where w = cancelled_world and files = "[''note.md'']"
        and destination = sample_destination and saveFiles = True and deleteOld = True]
      batch_begun_and_ended_once [where w = throwing_world and files = "[''note.md'']"
        and destination = sample_destination and saveFiles = True and deleteOld = True]
      sample_run_facts(1) v r1 r2 r3
    by simp
qed

end
